theory Spec2Isabelle
  imports Main "HOL-Library.Sublist" "HOL-Library.Word"
begin

unbundle bit_operations_syntax

section \<open>Strings\<close>

text \<open>
  A Go string is a sequence of bytes; it is modelled as a \<^typ>\<open>string\<close> (a list of
  8-bit characters). A rune is a code point, a natural number here.
\<close>

definition backslash :: char where
  "backslash = CHR 0x5C"

definition Separator :: char where
  "Separator = CHR ''/''"

text \<open>\<^verbatim>\<open>strings.HasPrefix\<close> and \<^verbatim>\<open>strings.HasSuffix\<close>.\<close>

definition HasPrefix :: "string \<Rightarrow> string \<Rightarrow> bool" where
  "HasPrefix s p = (take (length p) s = p)"

definition HasSuffix :: "string \<Rightarrow> string \<Rightarrow> bool" where
  "HasSuffix s x = (length x \<le> length s \<and> drop (length s - length x) s = x)"

text \<open>
  \<^verbatim>\<open>utf8.DecodeRuneInString\<close>: the first rune of a string and its width in bytes. A
  byte that starts no well-formed encoding is decoded as \<^verbatim>\<open>RuneError\<close> of width 1;
  the empty string gives width 0. The first byte fixes the width and the range of the
  second byte; the bytes after it lie in 80 to BF.
\<close>

definition RuneError :: nat where
  "RuneError = 0xFFFD"

definition DecodeRuneInString :: "string \<Rightarrow> nat \<times> nat" where
  "DecodeRuneInString s =
     (if s = [] then (RuneError, 0)
      else
        let s0 = (of_char (s ! 0) :: nat) in
        if s0 < 0x80 then (s0, 1)
        else if s0 < 0xC2 \<or> 0xF4 < s0 then (RuneError, 1)
        else
          let sz = (if s0 < 0xE0 then 2 else if s0 < 0xF0 then 3 else 4 :: nat);
              lo = (if s0 = 0xE0 then 0xA0 else if s0 = 0xF0 then 0x90 else 0x80 :: nat);
              hi = (if s0 = 0xED then 0x9F else if s0 = 0xF4 then 0x8F else 0xBF :: nat)
          in if length s < sz then (RuneError, 1)
             else
               let s1 = (of_char (s ! 1) :: nat) in
               if s1 < lo \<or> hi < s1 then (RuneError, 1)
               else if sz \<le> 2 then ((s0 mod 32) * 64 + s1 mod 64, 2)
               else
                 let s2 = (of_char (s ! 2) :: nat) in
                 if s2 < 0x80 \<or> 0xBF < s2 then (RuneError, 1)
                 else if sz \<le> 3
                 then ((s0 mod 16) * 4096 + (s1 mod 64) * 64 + s2 mod 64, 3)
                 else
                   let s3 = (of_char (s ! 3) :: nat) in
                   if s3 < 0x80 \<or> 0xBF < s3 then (RuneError, 1)
                   else ((s0 mod 8) * 262144 + (s1 mod 64) * 4096 + (s2 mod 64) * 64 +
                         s3 mod 64, 4))"

lemma DecodeRuneInString_width:
  "s \<noteq> [] \<Longrightarrow> 1 \<le> snd (DecodeRuneInString s)"
  by (simp add: DecodeRuneInString_def Let_def)

section \<open>Shell globs: \<^verbatim>\<open>path/filepath.Match\<close>\<close>

text \<open>
  The matcher of the Go library (Unix variant: the separator is \<^verbatim>\<open>/\<close> and the
  backslash escapes). A pattern is cut into chunks, each a run of single-character
  operators possibly preceded by stars. \<^verbatim>\<open>matchDomain\<close> drops the error of
  \<^verbatim>\<open>Match\<close> and keeps its boolean, which is false whenever the pattern is malformed.
\<close>

text \<open>
  The scanning loop of \<^verbatim>\<open>scanChunk\<close>: the length of the chunk at the head of a
  pattern whose leading stars are gone. A star ends the chunk unless it stands in a
  bracket expression.
\<close>

fun scanLoop :: "bool \<Rightarrow> string \<Rightarrow> nat" where
  "scanLoop inrange [] = 0"
| "scanLoop inrange (c # cs) =
     (if c = backslash then
        (case cs of [] \<Rightarrow> 1 | _ # cs' \<Rightarrow> 2 + scanLoop inrange cs')
      else if c = CHR ''['' then 1 + scanLoop True cs
      else if c = CHR '']'' then 1 + scanLoop False cs
      else if c = CHR ''*'' then (if \<not> inrange then 0 else 1 + scanLoop inrange cs)
      else 1 + scanLoop inrange cs)"

definition scanChunk :: "string \<Rightarrow> bool \<times> string \<times> string" where
  "scanChunk pattern =
     (let star = (pattern \<noteq> [] \<and> hd pattern = CHR ''*'');
          p = dropWhile (\<lambda>c. c = CHR ''*'') pattern;
          i = scanLoop False p
      in (star, take i p, drop i p))"

text \<open>
  \<^verbatim>\<open>getEsc\<close>: one (possibly escaped) rune of a bracket expression, and the chunk
  after it. \<open>None\<close> is \<^verbatim>\<open>ErrBadPattern\<close>.
\<close>

definition getEsc :: "string \<Rightarrow> (nat \<times> string) option" where
  "getEsc chunk =
     (if chunk = [] \<or> hd chunk = CHR ''-'' \<or> hd chunk = CHR '']'' then None
      else
        let chunk1 = (if hd chunk = backslash then tl chunk else chunk)
        in if chunk1 = [] then None
           else
             (case DecodeRuneInString chunk1 of
                (r, n) \<Rightarrow>
                  if r = RuneError \<and> n = 1 then None
                  else if drop n chunk1 = [] then None
                  else Some (r, drop n chunk1)))"

lemma getEsc_shorter: "getEsc chunk = Some (r, rest) \<Longrightarrow> length rest < length chunk"
proof -
  assume g: "getEsc chunk = Some (r, rest)"
  then have ne: "chunk \<noteq> []" by (auto simp: getEsc_def)
  define chunk1 where "chunk1 = (if hd chunk = backslash then tl chunk else chunk)"
  from g have c1: "chunk1 \<noteq> []" and rest: "rest = drop (snd (DecodeRuneInString chunk1)) chunk1"
    by (auto simp: getEsc_def Let_def chunk1_def split: if_splits prod.splits)
  from c1 have "1 \<le> snd (DecodeRuneInString chunk1)" by (rule DecodeRuneInString_width)
  with c1 rest have "length rest < length chunk1" by (cases chunk1) auto
  moreover have "length chunk1 \<le> length chunk" by (simp add: chunk1_def)
  ultimately show ?thesis by simp
qed

text \<open>
  The range loop of a bracket expression, entered after \<^verbatim>\<open>[\<close> and an optional
  \<^verbatim>\<open>^\<close>. It returns whether some range holds the rune \<open>r\<close>, and the chunk after the
  closing bracket.
\<close>

function classLoop :: "nat \<Rightarrow> nat \<Rightarrow> bool \<Rightarrow> string \<Rightarrow> (bool \<times> string) option" where
  "classLoop r nrange match chunk =
     (if chunk \<noteq> [] \<and> hd chunk = CHR '']'' \<and> nrange > 0 then Some (match, tl chunk)
      else
        (case getEsc chunk of
           None \<Rightarrow> None
         | Some (lo, chunk1) \<Rightarrow>
             (if hd chunk1 = CHR ''-'' then
                (case getEsc (tl chunk1) of
                   None \<Rightarrow> None
                 | Some (hi, chunk2) \<Rightarrow>
                     classLoop r (nrange + 1) (match \<or> (lo \<le> r \<and> r \<le> hi)) chunk2)
              else
                classLoop r (nrange + 1) (match \<or> (lo \<le> r \<and> r \<le> lo)) chunk1)))"
  by pat_completeness auto
termination
proof (relation "measure (\<lambda>(r, nrange, match, chunk). length chunk)")
  show "wf (measure (\<lambda>(r, nrange, match, chunk). length chunk))" by simp
next
  fix r nrange :: nat and match :: bool and chunk x2 lo chunk1 x2a hi chunk2
  assume "getEsc chunk = Some x2" "(lo, chunk1) = x2" "hd chunk1 = CHR ''-''"
         "getEsc (tl chunk1) = Some x2a" "(hi, chunk2) = x2a"
  then have "length chunk1 < length chunk" "length chunk2 < length (tl chunk1)"
    using getEsc_shorter by metis+
  then show "((r, nrange + 1, match \<or> (lo \<le> r \<and> r \<le> hi), chunk2), r, nrange, match, chunk)
               \<in> measure (\<lambda>(r, nrange, match, chunk). length chunk)"
    by simp
next
  fix r nrange :: nat and match :: bool and chunk x2 lo chunk1
  assume "getEsc chunk = Some x2" "(lo, chunk1) = x2"
  then have "length chunk1 < length chunk"
    using getEsc_shorter by metis
  then show "((r, nrange + 1, match \<or> (lo \<le> r \<and> r \<le> lo), chunk1), r, nrange, match, chunk)
               \<in> measure (\<lambda>(r, nrange, match, chunk). length chunk)"
    by simp
qed

declare classLoop.simps [simp del]

lemma classLoop_shorter:
  "classLoop r nrange match chunk = Some (b, rest) \<Longrightarrow> length rest < length chunk"
proof (induction r nrange match chunk rule: classLoop.induct)
  case (1 r nrange match chunk)
  show ?case
  proof (cases "chunk \<noteq> [] \<and> hd chunk = CHR '']'' \<and> nrange > 0")
    case True
    with "1.prems" show ?thesis
      by (subst (asm) classLoop.simps) (cases chunk, auto)
  next
    case False
    then have unf: "classLoop r nrange match chunk =
        (case getEsc chunk of
           None \<Rightarrow> None
         | Some (lo, chunk1) \<Rightarrow>
             (if hd chunk1 = CHR ''-'' then
                (case getEsc (tl chunk1) of
                   None \<Rightarrow> None
                 | Some (hi, chunk2) \<Rightarrow>
                     classLoop r (nrange + 1) (match \<or> (lo \<le> r \<and> r \<le> hi)) chunk2)
              else
                classLoop r (nrange + 1) (match \<or> (lo \<le> r \<and> r \<le> lo)) chunk1))"
      by (subst classLoop.simps) (simp only: if_False)
    from "1.prems" obtain lo chunk1 where g1: "getEsc chunk = Some (lo, chunk1)"
      unfolding unf by (auto split: option.splits)
    have l1: "length chunk1 < length chunk" using g1 by (rule getEsc_shorter)
    show ?thesis
    proof (cases "hd chunk1 = CHR ''-''")
      case dash: True
      from g1 dash "1.prems" obtain hi chunk2 where
        g2: "getEsc (tl chunk1) = Some (hi, chunk2)"
        unfolding unf by (auto split: option.splits)
      have l2: "length chunk2 < length (tl chunk1)" using g2 by (rule getEsc_shorter)
      from g1 dash g2 "1.prems" have "length rest < length chunk2"
        unfolding unf by (simp add: "1.IH"(1) [OF False g1 refl dash g2 refl])
      with l1 l2 show ?thesis by simp
    next
      case nodash: False
      from g1 nodash "1.prems" have "length rest < length chunk1"
        unfolding unf by (simp add: "1.IH"(2) [OF False g1 refl nodash])
      with l1 show ?thesis by simp
    qed
  qed
qed

datatype chunk_result = Ok string | NoMatch | ErrBadPattern

text \<open>
  \<^verbatim>\<open>matchChunk\<close>: does the chunk match a prefix of \<open>s\<close>? \<open>Ok rest\<close> carries what
  is left of \<open>s\<close>. Once the match has failed the loop goes on over the chunk, to
  check that it is well formed, and no longer reads \<open>s\<close>: a bracket expression is then
  compared with the zero rune. A literal is compared byte by byte; \<^verbatim>\<open>?\<close> and a
  bracket expression take one rune.
\<close>

function matchChunkLoop :: "bool \<Rightarrow> string \<Rightarrow> string \<Rightarrow> chunk_result" where
  "matchChunkLoop failed [] s = (if failed then NoMatch else Ok s)"
| "matchChunkLoop failed (c # cs) s =
     (let failed1 = (failed \<or> s = []) in
      if c = CHR ''['' then
        (let r = (if failed1 then 0 else fst (DecodeRuneInString s));
             s1 = (if failed1 then s else drop (snd (DecodeRuneInString s)) s);
             negated = (cs \<noteq> [] \<and> hd cs = CHR ''^'');
             chunk2 = (if negated then tl cs else cs)
         in case classLoop r 0 False chunk2 of
              None \<Rightarrow> ErrBadPattern
            | Some (match, chunk3) \<Rightarrow>
                matchChunkLoop (failed1 \<or> match = negated) chunk3 s1)
      else if c = CHR ''?'' then
        matchChunkLoop (failed1 \<or> hd s = Separator) cs
          (if failed1 then s else drop (snd (DecodeRuneInString s)) s)
      else if c = backslash then
        (case cs of
           [] \<Rightarrow> ErrBadPattern
         | e # cs' \<Rightarrow>
             matchChunkLoop (failed1 \<or> e \<noteq> hd s) cs' (if failed1 then s else tl s))
      else
        matchChunkLoop (failed1 \<or> c \<noteq> hd s) cs (if failed1 then s else tl s))"
  by pat_completeness auto
termination
proof (relation "measure (\<lambda>(failed, chunk, s). length chunk)", goal_cases)
  case 1
  show ?case by simp
next
  case (2 failed c cs s failed1 r s1 negated chunk2 x2 match chunk3)
  then have "classLoop r 0 False chunk2 = Some (match, chunk3)" by simp
  then have "length chunk3 < length chunk2" by (rule classLoop_shorter)
  moreover have "length chunk2 \<le> length cs" using 2 by simp
  ultimately show ?case by simp
qed simp_all

declare matchChunkLoop.simps [simp del]

definition matchChunk :: "string \<Rightarrow> string \<Rightarrow> chunk_result" where
  "matchChunk chunk s = matchChunkLoop False chunk s"

text \<open>
  The star loop of \<^verbatim>\<open>Match\<close>: look for a match of the chunk after skipping
  \<open>i + 1\<close> bytes of the name, none of them a separator. When the chunk is the last
  one (\<open>final\<close>), a match that leaves part of the name is passed over.
\<close>

datatype skip_result = Found string | NotFound | SkipErr

fun starSkip :: "string \<Rightarrow> bool \<Rightarrow> string \<Rightarrow> skip_result" where
  "starSkip chunk final [] = NotFound"
| "starSkip chunk final (c # cs) =
     (if c = Separator then NotFound
      else
        (case matchChunk chunk cs of
           Ok t \<Rightarrow> (if final \<and> t \<noteq> [] then starSkip chunk final cs else Found t)
         | ErrBadPattern \<Rightarrow> SkipErr
         | NoMatch \<Rightarrow> starSkip chunk final cs))"

lemma scanChunk_shorter:
  assumes "pattern \<noteq> []" and "scanChunk pattern = (star, chunk, rest)"
  shows "length rest < length pattern"
proof (cases "hd pattern = CHR ''*''")
  case True
  with assms(1) have "length (dropWhile (\<lambda>c. c = CHR ''*'') pattern) < length pattern"
    by (cases pattern) (auto intro: le_imp_less_Suc length_dropWhile_le)
  moreover have "length rest \<le> length (dropWhile (\<lambda>c. c = CHR ''*'') pattern)"
    using assms(2) by (auto simp: scanChunk_def Let_def)
  ultimately show ?thesis by simp
next
  case False
  with assms(1) obtain c cs where p: "pattern = c # cs" and c: "c \<noteq> CHR ''*''"
    by (cases pattern) auto
  then have "0 < scanLoop False pattern"
    by (auto split: list.splits)
  moreover have "rest = drop (scanLoop False pattern) pattern"
    using assms(2) p c by (auto simp: scanChunk_def Let_def)
  ultimately show ?thesis using assms(1) by simp
qed

text \<open>
  \<^verbatim>\<open>Match\<close>, as a boolean: the error \<^verbatim>\<open>ErrBadPattern\<close> comes with the value false.
\<close>

function filepath_Match :: "string \<Rightarrow> string \<Rightarrow> bool" where
  "filepath_Match pattern name =
     (if pattern = [] then name = []
      else
        (case scanChunk pattern of
           (star, chunk, rest) \<Rightarrow>
             if star \<and> chunk = [] then Separator \<notin> set name
             else
               (case matchChunk chunk name of
                  ErrBadPattern \<Rightarrow> False
                | Ok t \<Rightarrow>
                    if t = [] \<or> rest \<noteq> [] then filepath_Match rest t
                    else if star then
                      (case starSkip chunk (rest = []) name of
                         Found t' \<Rightarrow> filepath_Match rest t'
                       | NotFound \<Rightarrow> False
                       | SkipErr \<Rightarrow> False)
                    else False
                | NoMatch \<Rightarrow>
                    if star then
                      (case starSkip chunk (rest = []) name of
                         Found t' \<Rightarrow> filepath_Match rest t'
                       | NotFound \<Rightarrow> False
                       | SkipErr \<Rightarrow> False)
                    else False)))"
  by pat_completeness auto
termination
  by (relation "measure (\<lambda>(pattern, name). length pattern)")
     (auto intro: scanChunk_shorter [OF _ sym])

declare filepath_Match.simps [simp del]

section \<open>Conversions (packages \<^verbatim>\<open>strings\<close> and \<^verbatim>\<open>strconv\<close>)\<close>

text \<open>\<^verbatim>\<open>strings.Split\<close> for a separator of one byte: the fields between the separators.\<close>

fun Split :: "string \<Rightarrow> char \<Rightarrow> string list" where
  "Split [] sep = [[]]"
| "Split (c # cs) sep =
     (if c = sep then [] # Split cs sep
      else (case Split cs sep of
              [] \<Rightarrow> [[c]]
            | f # fs \<Rightarrow> (c # f) # fs))"

definition isDigit :: "char \<Rightarrow> bool" where
  "isDigit c = (48 \<le> (of_char c :: nat) \<and> (of_char c :: nat) \<le> 57)"

definition digitsVal :: "string \<Rightarrow> int" where
  "digitsVal s = foldl (\<lambda>n c. n * 10 + ((of_char c :: int) - 48)) 0 s"

text \<open>
  \<^verbatim>\<open>strconv.Atoi\<close> with its error dropped, on a 64-bit platform: 0 on a syntax error,
  the nearest bound on a number out of range.
\<close>

definition Atoi :: "string \<Rightarrow> int" where
  "Atoi s =
     (let neg = (s \<noteq> [] \<and> hd s = CHR ''-'');
          body = (if s \<noteq> [] \<and> (hd s = CHR ''-'' \<or> hd s = CHR ''+'') then tl s else s)
      in if body = [] \<or> \<not> list_all isDigit body then 0
         else
           let v = digitsVal body in
           if neg then (if v > 2 ^ 63 then - (2 ^ 63) else - v)
           else (if v \<ge> 2 ^ 63 then 2 ^ 63 - 1 else v))"

text \<open>\<^verbatim>\<open>strconv.Itoa\<close>.\<close>

fun natStr :: "nat \<Rightarrow> string" where
  "natStr n =
     (if n < 10 then [char_of (48 + n)]
      else natStr (n div 10) @ [char_of (48 + n mod 10)])"

declare natStr.simps [simp del]

definition Itoa :: "int \<Rightarrow> string" where
  "Itoa i = (if i < 0 then CHR ''-'' # natStr (nat (- i)) else natStr (nat i))"

text \<open>The bytes of a string, and the string of a run of bytes.\<close>

definition bytes :: "string \<Rightarrow> 8 word list" where
  "bytes s = map (\<lambda>c. of_nat (of_char c)) s"

definition stringOf :: "8 word list \<Rightarrow> string" where
  "stringOf bs = map (\<lambda>b. char_of (unat b)) bs"

definition CRLF :: string where
  "CRLF = [CHR 0x0D, CHR 0x0A]"

definition LF :: string where
  "LF = [CHR 0x0A]"

section \<open>Addresses (package \<^verbatim>\<open>net\<close> of the Go library)\<close>

text \<open>
  A \<^verbatim>\<open>net.IP\<close> is a byte slice of length 4 or 16; the nil address has length 0.
  Functions of the library that return a possibly nil address return an option here,
  \<open>None\<close> for nil.
\<close>

type_synonym byte = "8 word"
type_synonym IP = "byte list"
type_synonym IPMask = "byte list"

record IPNet =
  net_IP :: IP
  net_Mask :: IPMask

record TCPAddr =
  addr_IP :: IP
  addr_Port :: int

definition IPv4len :: nat where
  "IPv4len = 4"

definition IPv6len :: nat where
  "IPv6len = 16"

definition v4InV6Prefix :: "byte list" where
  "v4InV6Prefix = [0, 0, 0, 0, 0, 0, 0, 0, 0, 0, 0xff, 0xff]"

definition IPv4 :: "byte \<Rightarrow> byte \<Rightarrow> byte \<Rightarrow> byte \<Rightarrow> IP" where
  "IPv4 a b c d = v4InV6Prefix @ [a, b, c, d]"

definition isZeros :: "byte list \<Rightarrow> bool" where
  "isZeros p = list_all (\<lambda>b. b = 0) p"

definition To4 :: "IP \<Rightarrow> IP option" where
  "To4 ip =
     (if length ip = IPv4len then Some ip
      else if length ip = IPv6len \<and> isZeros (take 10 ip) \<and> ip ! 10 = 0xff \<and> ip ! 11 = 0xff
      then Some (drop 12 ip)
      else None)"

definition To16 :: "IP \<Rightarrow> IP option" where
  "To16 ip =
     (if length ip = IPv4len then Some (IPv4 (ip ! 0) (ip ! 1) (ip ! 2) (ip ! 3))
      else if length ip = IPv6len then Some ip
      else None)"

definition IsLinkLocalUnicast :: "IP \<Rightarrow> bool" where
  "IsLinkLocalUnicast ip =
     (case To4 ip of
        Some ip4 \<Rightarrow> ip4 ! 0 = 169 \<and> ip4 ! 1 = 254
      | None \<Rightarrow> length ip = IPv6len \<and> ip ! 0 = 0xfe \<and> (ip ! 1) AND 0xc0 = 0x80)"

definition Equal :: "IP \<Rightarrow> IP \<Rightarrow> bool" where
  "Equal ip x =
     (if length ip = length x then ip = x
      else if length ip = IPv4len \<and> length x = IPv6len
      then take 12 x = v4InV6Prefix \<and> ip = drop 12 x
      else if length ip = IPv6len \<and> length x = IPv4len
      then take 12 ip = v4InV6Prefix \<and> drop 12 ip = x
      else False)"

definition networkNumberAndMask :: "IPNet \<Rightarrow> (IP \<times> IPMask) option" where
  "networkNumberAndMask n =
     (let ip0 = (case To4 (net_IP n) of Some v \<Rightarrow> Some v
                 | None \<Rightarrow> if length (net_IP n) \<noteq> IPv6len then None else Some (net_IP n))
      in case ip0 of
           None \<Rightarrow> None
         | Some ip \<Rightarrow>
             if length (net_Mask n) = IPv4len then
               (if length ip \<noteq> IPv4len then None else Some (ip, net_Mask n))
             else if length (net_Mask n) = IPv6len then
               (if length ip = IPv4len then Some (ip, drop 12 (net_Mask n))
                else Some (ip, net_Mask n))
             else None)"

definition Contains :: "IPNet \<Rightarrow> IP \<Rightarrow> bool" where
  "Contains n ip0 =
     (let ip = (case To4 ip0 of Some x \<Rightarrow> x | None \<Rightarrow> ip0)
      in case networkNumberAndMask n of
           None \<Rightarrow> length ip = 0
         | Some (nn, m) \<Rightarrow>
             length ip = length nn \<and>
             list_all (\<lambda>i. (nn ! i) AND (m ! i) = (ip ! i) AND (m ! i)) [0 ..< length ip])"

text \<open>
  \<^verbatim>\<open>net.JoinHostPort\<close>: a host that holds a colon is taken for a literal IPv6 address
  and bracketed.
\<close>

definition JoinHostPort :: "string \<Rightarrow> string \<Rightarrow> string" where
  "JoinHostPort host port =
     (if CHR '':'' \<in> set host then ''['' @ host @ '']:'' @ port else host @ '':'' @ port)"

text \<open>
  A request as \<^verbatim>\<open>http.ReadRequest\<close> parses it: the fields that the program reads.
\<close>

record Request =
  Method :: string
  Host :: string
  URL :: string

text \<open>
  The parsers and printers of the library are parameters of the model: the program is
  verified for every behaviour of
  \<^verbatim>\<open>strings.ToLower\<close>,
  \<^verbatim>\<open>net.ParseIP\<close> (nil is \<open>None\<close>),
  \<^verbatim>\<open>net.ParseCIDR\<close> (an error is \<open>None\<close>; the program uses the network only),
  \<^verbatim>\<open>net.SplitHostPort\<close> (an error is \<open>None\<close>),
  \<^verbatim>\<open>IP.String\<close>,
  \<^verbatim>\<open>http.ReadRequest\<close> on the bytes that a client sends (an error is \<open>None\<close>) and
  \<^verbatim>\<open>Request.Write\<close> (the bytes that it sends).
\<close>

record golib =
  ToLower :: "string \<Rightarrow> string"
  ParseIP :: "string \<Rightarrow> IP option"
  ParseCIDR :: "string \<Rightarrow> IPNet option"
  SplitHostPort :: "string \<Rightarrow> (string \<times> string) option"
  IPString :: "IP \<Rightarrow> string"
  ReadRequest :: "byte list \<Rightarrow> Request option"
  RequestBytes :: "Request \<Rightarrow> byte list"

text \<open>A possibly nil address as a byte slice.\<close>

definition orNil :: "IP option \<Rightarrow> IP" where
  "orNil v = (case v of None \<Rightarrow> [] | Some ip \<Rightarrow> ip)"

section \<open>Route rules (package \<^verbatim>\<open>config\<close>)\<close>

record Match =
  Domains :: "string list"
  IPs :: "string list"
  Ports :: "int list"
  Protocol :: string

record RouteRule =
  ID :: string
  Name :: string
  Match :: Match
  Interface :: string
  Enabled :: bool

section \<open>The routing engine (package \<^verbatim>\<open>router\<close>)\<close>

record Router =
  rules :: "RouteRule list"

definition NewRouter :: "RouteRule list \<Rightarrow> Router" where
  "NewRouter rs = \<lparr>rules = rs\<rparr>"

definition UpdateRules :: "Router \<Rightarrow> RouteRule list \<Rightarrow> Router" where
  "UpdateRules r rs = r\<lparr>rules := rs\<rparr>"

record RouteResult =
  res_Interface :: string
  RuleID :: string
  RuleName :: string

text \<open>\<^verbatim>\<open>matchDomain\<close>: does a domain match a pattern, with wildcard support?\<close>

definition matchDomain :: "golib \<Rightarrow> string \<Rightarrow> string \<Rightarrow> bool" where
  "matchDomain lib pattern0 domain0 =
     (let pattern = ToLower lib pattern0;
          domain = ToLower lib domain0
      in if pattern = domain then True
         else if HasPrefix pattern ''*.'' \<and>
                 (HasSuffix domain (drop 1 pattern) \<or> domain = drop 2 pattern) then True
         else filepath_Match pattern domain)"

text \<open>The three loops of \<^verbatim>\<open>matchRule\<close>; each stops at the first match.\<close>

fun domainsMatched :: "golib \<Rightarrow> string list \<Rightarrow> string \<Rightarrow> bool" where
  "domainsMatched lib [] host = False"
| "domainsMatched lib (pattern # ps) host =
     (if matchDomain lib pattern host then True else domainsMatched lib ps host)"

fun ipsMatched :: "golib \<Rightarrow> string list \<Rightarrow> IP \<Rightarrow> bool" where
  "ipsMatched lib [] ip = False"
| "ipsMatched lib (cidr # cs) ip =
     (case ParseCIDR lib cidr of
        None \<Rightarrow>
          (if Equal (orNil (ParseIP lib cidr)) ip then True else ipsMatched lib cs ip)
      | Some ipNet \<Rightarrow>
          (if Contains ipNet ip then True else ipsMatched lib cs ip))"

fun portsMatched :: "int list \<Rightarrow> int \<Rightarrow> bool" where
  "portsMatched [] port = False"
| "portsMatched (p # ps) port = (if p = port then True else portsMatched ps port)"

text \<open>\<^verbatim>\<open>matchRule\<close>: does a rule match the destination?\<close>

definition matchRule :: "golib \<Rightarrow> RouteRule \<Rightarrow> string \<Rightarrow> int \<Rightarrow> bool" where
  "matchRule lib rule host port =
     (let m = Match rule in
      if Domains m = [] \<and> IPs m = [] \<and> Ports m = [] then True
      else if Domains m \<noteq> [] \<and> \<not> domainsMatched lib (Domains m) host then False
      else if IPs m \<noteq> [] \<and>
              (case ParseIP lib host of
                 None \<Rightarrow> Domains m = []
               | Some ip \<Rightarrow> \<not> ipsMatched lib (IPs m) ip) then False
      else if Ports m \<noteq> [] \<and> \<not> portsMatched (Ports m) port then False
      else True)"

text \<open>\<^verbatim>\<open>Route\<close>: the first enabled rule that matches decides; cable is the default.\<close>

definition defaultResult :: RouteResult where
  "defaultResult = \<lparr>res_Interface = ''cable'', RuleID = ''default'', RuleName = ''Default''\<rparr>"

fun routeLoop :: "golib \<Rightarrow> RouteRule list \<Rightarrow> string \<Rightarrow> int \<Rightarrow> RouteResult" where
  "routeLoop lib [] host port = defaultResult"
| "routeLoop lib (rule # rs) host port =
     (if \<not> Enabled rule then routeLoop lib rs host port
      else if matchRule lib rule host port
      then \<lparr>res_Interface = Interface rule, RuleID = ID rule, RuleName = Name rule\<rparr>
      else routeLoop lib rs host port)"

definition Route :: "golib \<Rightarrow> Router \<Rightarrow> string \<Rightarrow> int \<Rightarrow> RouteResult" where
  "Route lib r host port = routeLoop lib (rules r) host port"

section \<open>Effects\<close>

text \<open>
  What a handler does to the world is recorded as a list of events, in program order:
  the records it logs and the calls it makes on the client connection and on the
  upstream (remote) connection. A relay is one event that carries the programs of its
  two goroutines.
\<close>

datatype level = LDebug | LInfo | LWarn | LError

datatype endpoint = Client | Remote

datatype relay_op =
    Copy endpoint endpoint  \<comment> \<open>\<^verbatim>\<open>io.Copy(dst, src)\<close>\<close>
  | CloseWrite endpoint

datatype event =
    Log level string
  | SetDeadline endpoint bool  \<comment> \<open>true: thirty seconds from now; false: cleared\<close>
  | Write endpoint "byte list"
  | CopyAll endpoint endpoint  \<comment> \<open>\<^verbatim>\<open>io.Copy(dst, src)\<close> in the handler itself\<close>
  | Relay "relay_op list" "relay_op list"
  | Close endpoint

text \<open>
  A connection as the program sees it: its local address, whether its dynamic type is
  \<^verbatim>\<open>*net.TCPConn\<close>, the bytes that reads obtain from it before it ends, and whether a
  write on it succeeds.
\<close>

record Conn =
  LocalAddr :: TCPAddr
  isTCPConn :: bool
  incoming :: "byte list"
  writable :: bool

section \<open>Interfaces (package \<^verbatim>\<open>network\<close>)\<close>

record Interface =
  ifName :: string
  ifType :: string
  IPv4Addrs :: "string list"
  IPv6Addrs :: "string list"
  MACAddress :: string
  IsUp :: bool
  MTU :: int

record InterfaceManager =
  cableInterfaceName :: string
  wifiInterfaceName :: string

definition NewInterfaceManager :: "string \<Rightarrow> string \<Rightarrow> InterfaceManager" where
  "NewInterfaceManager cableName wifiName =
     \<lparr>cableInterfaceName = cableName, wifiInterfaceName = wifiName\<rparr>"

text \<open>
  The errors of the package, one constructor for each message the code formats:
  \<^item> \<open>ErrListInterfaces\<close>: failed to list interfaces;
  \<^item> \<open>ErrUnknownInterfaceType t\<close>: unknown interface type;
  \<^item> \<open>ErrInterfaceNotFound name\<close>: interface not found;
  \<^item> \<open>ErrNoIPv4 name\<close>: no IPv4 address found for interface;
  \<^item> \<open>ErrParseIP s\<close>: failed to parse IP address;
  \<^item> \<open>ErrNoIPv6 name host\<close>: no IPv6 address found for interface (target requires IPv6);
  \<^item> \<open>ErrOnlyLinkLocalIPv6 name host\<close>: interface only has link-local IPv6 address;
  \<^item> \<open>ErrNoUsableIPv6 name host\<close>: no usable IPv6 address found for interface;
  \<^item> \<open>ErrParseIPv6 s\<close>: failed to parse IPv6 address;
  \<^item> \<open>ErrDial address interfaceType cause\<close>: failed to dial.
\<close>

datatype error =
    ErrListInterfaces
  | ErrUnknownInterfaceType string
  | ErrInterfaceNotFound string
  | ErrNoIPv4 string
  | ErrParseIP string
  | ErrNoIPv6 string string
  | ErrOnlyLinkLocalIPv6 string string
  | ErrNoUsableIPv6 string string
  | ErrParseIPv6 string
  | ErrDial string string string

text \<open>
  The host: what \<^verbatim>\<open>net.Interfaces\<close> and \<^verbatim>\<open>Addrs\<close> report (\<open>None\<close> is an error), and
  what \<^verbatim>\<open>net.Dialer.DialContext\<close> does for a local address, a timeout, a network and an
  address (\<open>Inl\<close> is the cause of a failure).
\<close>

datatype sys_addr = IPNetAddr IP | OtherAddr

record sys_iface =
  sys_Name :: string
  sys_Loopback :: bool
  sys_Up :: bool
  sys_MTU :: int
  sys_HardwareAddr :: string
  sys_Addrs :: "sys_addr list option"

record host =
  netInterfaces :: "sys_iface list option"
  osDial :: "TCPAddr option \<Rightarrow> int \<Rightarrow> string \<Rightarrow> string \<Rightarrow> string + Conn"

text \<open>\<^verbatim>\<open>detectInterfaceType\<close>: the type of an interface, from its name.\<close>

definition detectInterfaceType :: "golib \<Rightarrow> InterfaceManager \<Rightarrow> string \<Rightarrow> string" where
  "detectInterfaceType lib im name0 =
     (if name0 = cableInterfaceName im then ''cable''
      else if name0 = wifiInterfaceName im then ''wifi''
      else
        let name = ToLower lib name0 in
        if HasPrefix name ''en'' then ''other''
        else if HasPrefix name ''bridge'' \<or> HasPrefix name ''awdl'' \<or>
                HasPrefix name ''llw'' \<or> HasPrefix name ''utun'' then ''virtual''
        else ''other'')"

text \<open>The address loop of \<^verbatim>\<open>ListInterfaces\<close>: IPv4 and IPv6 addresses, as text.\<close>

fun collectAddrs :: "golib \<Rightarrow> sys_addr list \<Rightarrow> string list \<times> string list" where
  "collectAddrs lib [] = ([], [])"
| "collectAddrs lib (OtherAddr # as) = collectAddrs lib as"
| "collectAddrs lib (IPNetAddr ip # as) =
     (case collectAddrs lib as of
        (v4, v6) \<Rightarrow>
          if To4 ip \<noteq> None then (IPString lib ip # v4, v6)
          else if To16 ip \<noteq> None then (v4, IPString lib ip # v6)
          else (v4, v6))"

fun listLoop :: "golib \<Rightarrow> InterfaceManager \<Rightarrow> sys_iface list \<Rightarrow> Interface list" where
  "listLoop lib im [] = []"
| "listLoop lib im (iface # rest) =
     (if sys_Loopback iface then listLoop lib im rest
      else
        (case sys_Addrs iface of
           None \<Rightarrow> listLoop lib im rest
         | Some addrs \<Rightarrow>
             (case collectAddrs lib addrs of
                (v4, v6) \<Rightarrow>
                  if v4 \<noteq> [] \<or> v6 \<noteq> [] then
                    \<lparr>ifName = sys_Name iface,
                     ifType = detectInterfaceType lib im (sys_Name iface),
                     IPv4Addrs = v4, IPv6Addrs = v6,
                     MACAddress = sys_HardwareAddr iface,
                     IsUp = sys_Up iface,
                     MTU = sys_MTU iface\<rparr> # listLoop lib im rest
                  else listLoop lib im rest)))"

definition ListInterfaces :: "golib \<Rightarrow> host \<Rightarrow> InterfaceManager \<Rightarrow> error + Interface list" where
  "ListInterfaces lib os im =
     (case netInterfaces os of
        None \<Rightarrow> Inl ErrListInterfaces
      | Some ifaces \<Rightarrow> Inr (listLoop lib im ifaces))"

text \<open>\<^verbatim>\<open>GetInterfaceByType\<close>: the interface bound to a label (cable or wifi).\<close>

fun findByName :: "Interface list \<Rightarrow> string \<Rightarrow> error + Interface" where
  "findByName [] targetName = Inl (ErrInterfaceNotFound targetName)"
| "findByName (iface # rest) targetName =
     (if ifName iface = targetName then Inr iface else findByName rest targetName)"

definition GetInterfaceByType ::
    "golib \<Rightarrow> host \<Rightarrow> InterfaceManager \<Rightarrow> string \<Rightarrow> error + Interface" where
  "GetInterfaceByType lib os im interfaceType =
     (case ListInterfaces lib os im of
        Inl err \<Rightarrow> Inl err
      | Inr ifaces \<Rightarrow>
          if interfaceType = ''cable'' then findByName ifaces (cableInterfaceName im)
          else if interfaceType = ''wifi'' then findByName ifaces (wifiInterfaceName im)
          else Inl (ErrUnknownInterfaceType interfaceType))"

text \<open>\<^verbatim>\<open>GetLocalAddr\<close>: the local IPv4 address to bind for a label.\<close>

definition firstIPv4 :: "golib \<Rightarrow> Interface \<Rightarrow> error + TCPAddr" where
  "firstIPv4 lib iface =
     (case IPv4Addrs iface of
        [] \<Rightarrow> Inl (ErrNoIPv4 (ifName iface))
      | a # _ \<Rightarrow>
          (case ParseIP lib a of
             None \<Rightarrow> Inl (ErrParseIP a)
           | Some ip \<Rightarrow> Inr \<lparr>addr_IP = ip, addr_Port = 0\<rparr>))"

definition GetLocalAddr ::
    "golib \<Rightarrow> host \<Rightarrow> InterfaceManager \<Rightarrow> string \<Rightarrow> error + TCPAddr" where
  "GetLocalAddr lib os im interfaceType =
     (case GetInterfaceByType lib os im interfaceType of
        Inl err \<Rightarrow> Inl err
      | Inr iface \<Rightarrow> firstIPv4 lib iface)"

text \<open>
  \<^verbatim>\<open>GetLocalAddrForTarget\<close>: the local address of the family of the target. The host
  part of the target, and whether it is an IPv6 literal:
\<close>

definition targetHost :: "golib \<Rightarrow> string \<Rightarrow> string" where
  "targetHost lib targetAddr =
     (case SplitHostPort lib targetAddr of Some (h, _) \<Rightarrow> h | None \<Rightarrow> targetAddr)"

definition isIPv6Target :: "golib \<Rightarrow> string \<Rightarrow> bool" where
  "isIPv6Target lib targetAddr =
     (case ParseIP lib (targetHost lib targetAddr) of
        None \<Rightarrow> False
      | Some targetIP \<Rightarrow> To4 targetIP = None \<and> To16 targetIP \<noteq> None)"

text \<open>
  The loop over the IPv6 addresses of the interface: the selected address (empty when
  there is none) and whether a link-local address was seen.
\<close>

fun selectIPv6 :: "golib \<Rightarrow> string list \<Rightarrow> bool \<Rightarrow> string \<times> bool" where
  "selectIPv6 lib [] hasLinkLocal = ([], hasLinkLocal)"
| "selectIPv6 lib (addr # rest) hasLinkLocal =
     (case ParseIP lib addr of
        None \<Rightarrow> selectIPv6 lib rest hasLinkLocal
      | Some ip \<Rightarrow>
          if IsLinkLocalUnicast ip then selectIPv6 lib rest True
          else (addr, hasLinkLocal))"

definition GetLocalAddrForTarget ::
    "golib \<Rightarrow> host \<Rightarrow> InterfaceManager \<Rightarrow> string \<Rightarrow> string \<Rightarrow> error + TCPAddr" where
  "GetLocalAddrForTarget lib os im interfaceType targetAddr =
     (case GetInterfaceByType lib os im interfaceType of
        Inl err \<Rightarrow> Inl err
      | Inr iface \<Rightarrow>
          let host = targetHost lib targetAddr in
          if isIPv6Target lib targetAddr then
            (if IPv6Addrs iface = [] then Inl (ErrNoIPv6 (ifName iface) host)
             else
               (case selectIPv6 lib (IPv6Addrs iface) False of
                  (selectedAddr, hasLinkLocal) \<Rightarrow>
                    if selectedAddr = [] then
                      (if hasLinkLocal then Inl (ErrOnlyLinkLocalIPv6 (ifName iface) host)
                       else Inl (ErrNoUsableIPv6 (ifName iface) host))
                    else
                      (case ParseIP lib selectedAddr of
                         None \<Rightarrow> Inl (ErrParseIPv6 selectedAddr)
                       | Some ip \<Rightarrow> Inr \<lparr>addr_IP = ip, addr_Port = 0\<rparr>)))
          else firstIPv4 lib iface)"

section \<open>The interface-bound dialer (package \<^verbatim>\<open>network\<close>)\<close>

record InterfaceDialer =
  interfaceManager :: InterfaceManager
  timeout :: int

text \<open>Durations are counted in nanoseconds.\<close>

definition Second :: int where
  "Second = 1000000000"

definition NewInterfaceDialer :: "InterfaceManager \<Rightarrow> int \<Rightarrow> InterfaceDialer" where
  "NewInterfaceDialer im t =
     \<lparr>interfaceManager = im, timeout = (if t = 0 then 30 * Second else t)\<rparr>"

text \<open>
  \<^verbatim>\<open>DialContext\<close>: a connection to the address through the interface of the label. The
  result is the list of log records and the connection or the error. When the lookup of
  the local address fails, the dialer of the library gets a nil local address (\<open>None\<close>)
  and binds nothing.
\<close>

definition DialContext ::
    "golib \<Rightarrow> host \<Rightarrow> InterfaceDialer \<Rightarrow> string \<Rightarrow> string \<Rightarrow> string \<Rightarrow>
       event list \<times> (error + Conn)" where
  "DialContext lib os d network address interfaceType =
     (let (log1, localAddr) =
            (case GetLocalAddrForTarget lib os (interfaceManager d) interfaceType address of
               Inl err \<Rightarrow>
                 ([Log LWarn ''Interface unavailable, falling back to default route''], None)
             | Inr a \<Rightarrow> ([], Some a));
          log2 = log1 @ [Log LDebug ''Dialing connection'']
      in case osDial os localAddr (timeout d) network address of
           Inl cause \<Rightarrow> (log2, Inl (ErrDial address interfaceType cause))
         | Inr conn \<Rightarrow> (log2, Inr conn))"

definition Dial ::
    "golib \<Rightarrow> host \<Rightarrow> InterfaceDialer \<Rightarrow> string \<Rightarrow> string \<Rightarrow> string \<Rightarrow>
       event list \<times> (error + Conn)" where
  "Dial lib os d network address interfaceType =
     DialContext lib os d network address interfaceType"

definition DialTCP ::
    "golib \<Rightarrow> host \<Rightarrow> InterfaceDialer \<Rightarrow> string \<Rightarrow> string \<Rightarrow> event list \<times> (error + Conn)" where
  "DialTCP lib os d address interfaceType = Dial lib os d ''tcp'' address interfaceType"

section \<open>The SOCKS5 front-end (package \<^verbatim>\<open>proxy\<close>)\<close>

definition socks5Version :: byte where "socks5Version = 0x05"

definition authNone :: byte where "authNone = 0x00"
definition authPassword :: byte where "authPassword = 0x02"
definition authNoAccept :: byte where "authNoAccept = 0xFF"

definition cmdConnect :: byte where "cmdConnect = 0x01"
definition cmdBind :: byte where "cmdBind = 0x02"
definition cmdUDPAssociate :: byte where "cmdUDPAssociate = 0x03"

definition addrTypeIPv4 :: byte where "addrTypeIPv4 = 0x01"
definition addrTypeDomain :: byte where "addrTypeDomain = 0x03"
definition addrTypeIPv6 :: byte where "addrTypeIPv6 = 0x04"

definition repSuccess :: byte where "repSuccess = 0x00"
definition repHostUnreachable :: byte where "repHostUnreachable = 0x04"
definition repCommandNotSupported :: byte where "repCommandNotSupported = 0x07"
definition repAddressNotSupported :: byte where "repAddressNotSupported = 0x08"

record SOCKS5Server =
  socks_addr :: string
  socks_router :: Router
  socks_dialer :: InterfaceDialer

text \<open>
  \<^verbatim>\<open>io.ReadFull\<close> into a buffer of \<open>n\<close> bytes: the bytes read and the rest of the
  input, or \<open>None\<close> when the input ends before.
\<close>

definition ReadFull :: "nat \<Rightarrow> byte list \<Rightarrow> (byte list \<times> byte list) option" where
  "ReadFull n input =
     (if length input < n then None else Some (take n input, drop n input))"

text \<open>The errors of the front-end, one constructor for each place that returns one.\<close>

datatype socks_error =
    ErrReadHeader
  | ErrVersion byte
  | ErrReadMethods
  | ErrNoAcceptableAuth
  | ErrWriteFailed
  | ErrReadRequest
  | ErrCommand byte
  | ErrAddrType byte
  | ErrRead

text \<open>\<^verbatim>\<open>sendReply\<close>: a SOCKS5 reply with a code, an address and a port.\<close>

definition sendReply :: "golib \<Rightarrow> byte \<Rightarrow> string \<Rightarrow> int \<Rightarrow> event list" where
  "sendReply lib rep addr port =
     (let ip = orNil (ParseIP lib addr);
          (addrType, addrBytes) =
            (case To4 ip of
               Some ip4 \<Rightarrow> (addrTypeIPv4, ip4)
             | None \<Rightarrow>
                 (case To16 ip of
                    Some ip6 \<Rightarrow> (addrTypeIPv6, ip6)
                  | None \<Rightarrow> (addrTypeIPv4, [0, 0, 0, 0])))
      in [Write Client
            ([socks5Version, rep, 0x00, addrType] @ addrBytes @
             [word_of_int (port div 256), word_of_int port])])"

text \<open>
  \<^verbatim>\<open>handleHandshake\<close>: the negotiation of the version and of the methods. The result
  is the events, and the rest of the input or the error.
\<close>

definition handleHandshake :: "Conn \<Rightarrow> byte list \<Rightarrow> event list \<times> (socks_error + byte list)" where
  "handleHandshake conn input =
     (case ReadFull 2 input of
        None \<Rightarrow> ([], Inl ErrReadHeader)
      | Some (header, in1) \<Rightarrow>
          if header ! 0 \<noteq> socks5Version then ([], Inl (ErrVersion (header ! 0)))
          else
            (case ReadFull (unat (header ! 1)) in1 of
               None \<Rightarrow> ([], Inl ErrReadMethods)
             | Some (methods, in2) \<Rightarrow>
                 if authNone \<notin> set methods
                 then ([Write Client [socks5Version, authNoAccept]], Inl ErrNoAcceptableAuth)
                 else ([Write Client [socks5Version, authNone]],
                       if writable conn then Inr in2 else Inl ErrWriteFailed)))"

text \<open>
  \<^verbatim>\<open>handleRequest\<close>: the connection request. The result is the events, and the target
  address, the port and the rest of the input, or the error.
\<close>

definition readPort :: "string \<Rightarrow> byte list \<Rightarrow> socks_error + (string \<times> int \<times> byte list)" where
  "readPort addr input =
     (case ReadFull 2 input of
        None \<Rightarrow> Inl ErrRead
      | Some (portBuf, rest) \<Rightarrow>
          Inr (addr, int (unat (portBuf ! 0)) * 256 + int (unat (portBuf ! 1)), rest))"

definition handleRequest ::
    "golib \<Rightarrow> byte list \<Rightarrow> event list \<times> (socks_error + (string \<times> int \<times> byte list))" where
  "handleRequest lib input =
     (case ReadFull 4 input of
        None \<Rightarrow> ([], Inl ErrReadRequest)
      | Some (header, in1) \<Rightarrow>
          if header ! 0 \<noteq> socks5Version then ([], Inl (ErrVersion (header ! 0)))
          else if header ! 1 \<noteq> cmdConnect
          then (sendReply lib repCommandNotSupported ''0.0.0.0'' 0, Inl (ErrCommand (header ! 1)))
          else if header ! 3 = addrTypeIPv4 then
            (case ReadFull 4 in1 of
               None \<Rightarrow> ([], Inl ErrRead)
             | Some (ip, in2) \<Rightarrow> ([], readPort (IPString lib ip) in2))
          else if header ! 3 = addrTypeDomain then
            (case ReadFull 1 in1 of
               None \<Rightarrow> ([], Inl ErrRead)
             | Some (lenBuf, in2) \<Rightarrow>
                 (case ReadFull (unat (lenBuf ! 0)) in2 of
                    None \<Rightarrow> ([], Inl ErrRead)
                  | Some (domain, in3) \<Rightarrow> ([], readPort (stringOf domain) in3)))
          else if header ! 3 = addrTypeIPv6 then
            (case ReadFull 16 in1 of
               None \<Rightarrow> ([], Inl ErrRead)
             | Some (ip, in2) \<Rightarrow> ([], readPort (IPString lib ip) in2))
          else (sendReply lib repAddressNotSupported ''0.0.0.0'' 0,
                Inl (ErrAddrType (header ! 3))))"

text \<open>
  \<^verbatim>\<open>relay\<close> of the SOCKS5 server: each goroutine copies one way and then closes the
  write side of its destination, when that is a TCP connection.
\<close>

definition copyFunc :: "endpoint \<Rightarrow> endpoint \<Rightarrow> bool \<Rightarrow> relay_op list" where
  "copyFunc dst src dstIsTCP = Copy dst src # (if dstIsTCP then [CloseWrite dst] else [])"

definition socks_relay :: "Conn \<Rightarrow> Conn \<Rightarrow> event" where
  "socks_relay client remote =
     Relay (copyFunc Remote Client (isTCPConn remote)) (copyFunc Client Remote (isTCPConn client))"

text \<open>
  \<^verbatim>\<open>handleConnection\<close> of the SOCKS5 server. The deferred calls run last: the upstream
  connection is closed before the client's.
\<close>

definition socks_handleConnection ::
    "golib \<Rightarrow> host \<Rightarrow> SOCKS5Server \<Rightarrow> Conn \<Rightarrow> event list" where
  "socks_handleConnection lib os s conn =
     SetDeadline Client True #
     (case handleHandshake conn (incoming conn) of
        (ev1, Inl err) \<Rightarrow> ev1 @ [Log LDebug ''Handshake failed'', Close Client]
      | (ev1, Inr in1) \<Rightarrow>
          ev1 @
          (case handleRequest lib in1 of
             (ev2, Inl err) \<Rightarrow> ev2 @ [Log LDebug ''Request handling failed'', Close Client]
           | (ev2, Inr (targetAddr, port, in2)) \<Rightarrow>
               ev2 @
               (let result = Route lib (socks_router s) targetAddr port;
                    target = JoinHostPort targetAddr (Itoa port)
                in [SetDeadline Client False, Log LInfo ''Routing connection''] @
                   (case DialTCP lib os (socks_dialer s) target (res_Interface result) of
                      (dlog, Inl err) \<Rightarrow>
                        dlog @ sendReply lib repHostUnreachable ''0.0.0.0'' 0 @
                        [Log LWarn ''Failed to connect'', Close Client]
                    | (dlog, Inr remote) \<Rightarrow>
                        dlog @
                        sendReply lib repSuccess (IPString lib (addr_IP (LocalAddr remote)))
                          (addr_Port (LocalAddr remote)) @
                        [socks_relay conn remote, Close Remote, Close Client]))))"

section \<open>The HTTP front-end (package \<^verbatim>\<open>proxy\<close>)\<close>

record HTTPProxyServer =
  http_addr :: string
  http_router :: Router
  http_dialer :: InterfaceDialer

definition MethodConnect :: string where
  "MethodConnect = ''CONNECT''"

definition StatusBadGateway :: int where
  "StatusBadGateway = 502"

text \<open>
  \<^verbatim>\<open>http.StatusText\<close> at the codes 200 and 502; the program asks for 502 only.
\<close>

definition StatusText :: "int \<Rightarrow> string" where
  "StatusText code =
     (if code = 200 then ''OK'' else if code = 502 then ''Bad Gateway'' else [])"

text \<open>
  \<^verbatim>\<open>responseWriter\<close> wraps the client connection: \<^verbatim>\<open>Header\<close> returns a fresh, empty
  header each time, \<^verbatim>\<open>Write\<close> writes to the connection and \<^verbatim>\<open>WriteHeader\<close> writes a
  status line followed by an empty line.
\<close>

definition rw_Write :: "byte list \<Rightarrow> event list" where
  "rw_Write data = [Write Client data]"

definition rw_WriteHeader :: "int \<Rightarrow> event list" where
  "rw_WriteHeader statusCode =
     [Write Client
        (bytes (''HTTP/1.1 '' @ Itoa statusCode @ '' '' @ StatusText statusCode @ CRLF @ CRLF))]"

text \<open>
  \<^verbatim>\<open>http.Error\<close> of the library, on a \<^verbatim>\<open>responseWriter\<close>: it sets fields of the header
  that \<^verbatim>\<open>Header\<close> returns, which are lost; it writes the header with the code; it
  prints the message and a newline.
\<close>

definition http_Error :: "string \<Rightarrow> int \<Rightarrow> event list" where
  "http_Error msg code = rw_WriteHeader code @ rw_Write (bytes (msg @ LF))"

text \<open>
  \<^verbatim>\<open>relay\<close> of the HTTP proxy server: each goroutine copies one way.
\<close>

definition http_relay :: "Conn \<Rightarrow> Conn \<Rightarrow> event" where
  "http_relay client remote = Relay [Copy Remote Client] [Copy Client Remote]"

text \<open>
  \<^verbatim>\<open>handleConnect\<close>: the host and the port of a CONNECT request, then the handler.
\<close>

definition connectTarget :: "golib \<Rightarrow> Request \<Rightarrow> string \<times> string" where
  "connectTarget lib req =
     (case SplitHostPort lib (Host req) of
        None \<Rightarrow> (Host req, ''443'')
      | Some (host, portStr) \<Rightarrow> (host, portStr))"

definition handleConnect ::
    "golib \<Rightarrow> host \<Rightarrow> HTTPProxyServer \<Rightarrow> Conn \<Rightarrow> Request \<Rightarrow> event list" where
  "handleConnect lib os h conn req =
     (case connectTarget lib req of
        (host, portStr) \<Rightarrow>
          let port = Atoi portStr;
              result = Route lib (http_router h) host port;
              target = JoinHostPort host portStr
          in Log LInfo ''CONNECT request'' #
             (case DialTCP lib os (http_dialer h) target (res_Interface result) of
                (dlog, Inl err) \<Rightarrow>
                  dlog @ http_Error ''Bad Gateway'' StatusBadGateway @
                  [Log LWarn ''Failed to connect'']
              | (dlog, Inr remote) \<Rightarrow>
                  dlog @
                  [Write Client
                     (bytes (''HTTP/1.1 200 Connection Established'' @ CRLF @ CRLF)),
                   SetDeadline Client False,
                   http_relay conn remote,
                   Close Remote]))"

text \<open>
  \<^verbatim>\<open>handleHTTP\<close>: the host and the port of any other request, then the handler.
\<close>

definition httpTarget :: "string \<Rightarrow> string \<times> string" where
  "httpTarget host0 =
     (let hostPort = Split host0 CHR '':''
      in if length hostPort = 2 then (hostPort ! 0, hostPort ! 1) else (host0, ''80''))"

definition handleHTTP ::
    "golib \<Rightarrow> host \<Rightarrow> HTTPProxyServer \<Rightarrow> Conn \<Rightarrow> Request \<Rightarrow> event list" where
  "handleHTTP lib os h conn req =
     (case httpTarget (Host req) of
        (host, portStr) \<Rightarrow>
          let port = Atoi portStr;
              result = Route lib (http_router h) host port;
              target = JoinHostPort host portStr
          in Log LInfo ''HTTP request'' #
             (case DialTCP lib os (http_dialer h) target (res_Interface result) of
                (dlog, Inl err) \<Rightarrow>
                  dlog @ http_Error ''Bad Gateway'' StatusBadGateway @
                  [Log LWarn ''Failed to connect'']
              | (dlog, Inr remote) \<Rightarrow>
                  dlog @ Write Remote (RequestBytes lib req) #
                  (if \<not> writable remote
                   then [Log LDebug ''Failed to write request'', Close Remote]
                   else [SetDeadline Client False, CopyAll Client Remote, Close Remote])))"

text \<open>\<^verbatim>\<open>handleConnection\<close> of the HTTP proxy server.\<close>

definition http_handleConnection ::
    "golib \<Rightarrow> host \<Rightarrow> HTTPProxyServer \<Rightarrow> Conn \<Rightarrow> event list" where
  "http_handleConnection lib os h conn =
     SetDeadline Client True #
     (case ReadRequest lib (incoming conn) of
        None \<Rightarrow> [Log LDebug ''Failed to read request'']
      | Some req \<Rightarrow>
          if Method req = MethodConnect then handleConnect lib os h conn req
          else handleHTTP lib os h conn req) @
     [Close Client]"

section \<open>Reading a trace\<close>

text \<open>
  The payloads written to the client, in order; the events before the relay starts; the
  state of the client's deadline after a run of events (it starts unset).
\<close>

fun clientWrites :: "event list \<Rightarrow> byte list list" where
  "clientWrites [] = []"
| "clientWrites (Write Client b # es) = b # clientWrites es"
| "clientWrites (e # es) = clientWrites es"

fun isRelay :: "event \<Rightarrow> bool" where
  "isRelay (Relay a b) = True"
| "isRelay e = False"

definition beforeRelay :: "event list \<Rightarrow> event list" where
  "beforeRelay es = takeWhile (\<lambda>e. \<not> isRelay e) es"

fun deadlineSet :: "bool \<Rightarrow> event list \<Rightarrow> bool" where
  "deadlineSet d [] = d"
| "deadlineSet d (SetDeadline Client b # es) = deadlineSet b es"
| "deadlineSet d (e # es) = deadlineSet d es"

section \<open>Vocabulary of the claims\<close>

text \<open>A string without the characters that \<^verbatim>\<open>filepath.Match\<close> reads as operators.\<close>

definition meta_free :: "string \<Rightarrow> bool" where
  "meta_free s =
     list_all (\<lambda>c. c \<noteq> CHR ''*'' \<and> c \<noteq> CHR ''?'' \<and> c \<noteq> CHR ''['' \<and> c \<noteq> backslash) s"

text \<open>
  An entry of an interface's IPv6 list is link-local when it parses to a link-local
  unicast address, and global when it parses to an address that is not link-local.
\<close>

definition linkLocalEntry :: "golib \<Rightarrow> string \<Rightarrow> bool" where
  "linkLocalEntry lib a =
     (case ParseIP lib a of Some ip \<Rightarrow> IsLinkLocalUnicast ip | None \<Rightarrow> False)"

definition globalEntry :: "golib \<Rightarrow> string \<Rightarrow> bool" where
  "globalEntry lib a =
     (case ParseIP lib a of Some ip \<Rightarrow> \<not> IsLinkLocalUnicast ip | None \<Rightarrow> False)"

section \<open>The library and a host at the literals of the examples\<close>

text \<open>
  What the parsers and the printer of the library return at the literals used in the
  examples below. The examples call them at these literals and at host names, which the
  parsers of addresses reject.
\<close>

text \<open>
  \<^verbatim>\<open>strings.ToLower\<close> at ASCII strings, where it moves the letters A to Z to a to z; the
  strings of the examples are ASCII.
\<close>

definition lower_byte :: "char \<Rightarrow> char" where
  "lower_byte c =
     (if 65 \<le> (of_char c :: nat) \<and> (of_char c :: nat) \<le> 90
      then char_of ((of_char c :: nat) + 32) else c)"

definition sample_ToLower :: "string \<Rightarrow> string" where
  "sample_ToLower s = map lower_byte s"

definition sample_ParseIP :: "string \<Rightarrow> IP option" where
  "sample_ParseIP s =
     (if s = ''0.0.0.0'' then Some (IPv4 0 0 0 0)
      else if s = ''10.1.2.3'' then Some (IPv4 10 1 2 3)
      else if s = ''192.168.1.7'' then Some (IPv4 192 168 1 7)
      else if s = ''2001:db8::1''
        then Some [0x20, 0x01, 0x0d, 0xb8, 0, 0, 0, 0, 0, 0, 0, 0, 0, 0, 0, 1]
      else if s = ''2001:db8::2''
        then Some [0x20, 0x01, 0x0d, 0xb8, 0, 0, 0, 0, 0, 0, 0, 0, 0, 0, 0, 2]
      else if s = ''fe80::1''
        then Some [0xfe, 0x80, 0, 0, 0, 0, 0, 0, 0, 0, 0, 0, 0, 0, 0, 1]
      else if s = ''::ffff:10.9.9.9'' then Some (IPv4 10 9 9 9)
      else None)"

definition sample_ParseCIDR :: "string \<Rightarrow> IPNet option" where
  "sample_ParseCIDR s =
     (if s = ''10.0.0.0/8'' then Some \<lparr>net_IP = [10, 0, 0, 0], net_Mask = [255, 0, 0, 0]\<rparr>
      else None)"

definition sample_SplitHostPort :: "string \<Rightarrow> (string \<times> string) option" where
  "sample_SplitHostPort s =
     (if s = ''example.com:443'' then Some (''example.com'', ''443'')
      else if s = ''[2001:db8::1]:443'' then Some (''2001:db8::1'', ''443'')
      else if s = ''10.1.2.3:22'' then Some (''10.1.2.3'', ''22'')
      else if s = ''down.example.com:443'' then Some (''down.example.com'', ''443'')
      else if s = ''example.com:80'' then Some (''example.com'', ''80'')
      else if s = ''down.example.com:80'' then Some (''down.example.com'', ''80'')
      else if s = ''down.example.com:8080'' then Some (''down.example.com'', ''8080'')
      else if s = ''[::ffff:10.9.9.9]:443'' then Some (''::ffff:10.9.9.9'', ''443'')
      else None)"

definition sample_IPString :: "IP \<Rightarrow> string" where
  "sample_IPString ip =
     (if ip = IPv4 192 168 1 7 \<or> ip = [192, 168, 1, 7] then ''192.168.1.7''
      else if ip = IPv4 10 1 2 3 \<or> ip = [10, 1, 2, 3] then ''10.1.2.3''
      else if ip = [127, 0, 0, 1] then ''127.0.0.1''
      else if ip = [0x20, 0x01, 0x0d, 0xb8, 0, 0, 0, 0, 0, 0, 0, 0, 0, 0, 0, 2]
        then ''2001:db8::2''
      else if ip = [0xfe, 0x80, 0, 0, 0, 0, 0, 0, 0, 0, 0, 0, 0, 0, 0, 1] then ''fe80::1''
      else ''?'')"

text \<open>
  The request \<^verbatim>\<open>CONNECT h HTTP/1.1\<close> with the header \<^verbatim>\<open>Host: h\<close>, and the request
  \<^verbatim>\<open>GET http://h/ HTTP/1.1\<close> with the header \<^verbatim>\<open>Host: h\<close>, as a client sends them.
\<close>

definition connect_request :: "string \<Rightarrow> byte list" where
  "connect_request h =
     bytes (''CONNECT '' @ h @ '' HTTP/1.1'' @ CRLF @ ''Host: '' @ h @ CRLF @ CRLF)"

definition get_request :: "string \<Rightarrow> byte list" where
  "get_request h =
     bytes (''GET http://'' @ h @ ''/ HTTP/1.1'' @ CRLF @ ''Host: '' @ h @ CRLF @ CRLF)"

definition sample_ReadRequest :: "byte list \<Rightarrow> Request option" where
  "sample_ReadRequest bs =
     (if bs = connect_request ''example.com:443''
      then Some \<lparr>Method = ''CONNECT'', Host = ''example.com:443'', URL = ''//example.com:443''\<rparr>
      else if bs = connect_request ''down.example.com:443''
      then Some \<lparr>Method = ''CONNECT'', Host = ''down.example.com:443'',
                  URL = ''//down.example.com:443''\<rparr>
      else if bs = get_request ''down.example.com:443''
      then Some \<lparr>Method = ''GET'', Host = ''down.example.com:443'',
                  URL = ''http://down.example.com:443/''\<rparr>
      else None)"

definition sample_lib :: golib where
  "sample_lib = \<lparr>ToLower = sample_ToLower,
                  ParseIP = sample_ParseIP, ParseCIDR = sample_ParseCIDR,
                  SplitHostPort = sample_SplitHostPort, IPString = sample_IPString,
                  ReadRequest = sample_ReadRequest, RequestBytes = (\<lambda>req. [])\<rparr>"

text \<open>
  The host of the examples: a loopback interface; \<^verbatim>\<open>en0\<close> with a link-local and a
  global IPv6 address; \<^verbatim>\<open>en1\<close> with a link-local IPv6 address only; \<^verbatim>\<open>en2\<close> with
  an IPv4 address only. A dial of \<^verbatim>\<open>down.example.com\<close>, at any port, is refused, and
  the address \<^verbatim>\<open>[[::1]:8080]:80\<close> names no host; any other dial
  yields a TCP connection whose local address is the bound one, or 192.168.1.7 when
  there is none, on an ephemeral port.
\<close>

definition sample_conn :: "TCPAddr option \<Rightarrow> Conn" where
  "sample_conn localAddr =
     \<lparr>LocalAddr = (case localAddr of
                     None \<Rightarrow> \<lparr>addr_IP = IPv4 192 168 1 7, addr_Port = 50000\<rparr>
                   | Some a \<Rightarrow> a\<lparr>addr_Port := 50000\<rparr>),
      isTCPConn = True, incoming = [], writable = True\<rparr>"

definition sample_host :: host where
  "sample_host =
     \<lparr>netInterfaces = Some
        [\<lparr>sys_Name = ''lo0'', sys_Loopback = True, sys_Up = True, sys_MTU = 16384,
          sys_HardwareAddr = [],
          sys_Addrs = Some [IPNetAddr [127, 0, 0, 1]]\<rparr>,
         \<lparr>sys_Name = ''en0'', sys_Loopback = False, sys_Up = True, sys_MTU = 1500,
          sys_HardwareAddr = ''00:11:22:33:44:55'',
          sys_Addrs = Some
            [IPNetAddr [0xfe, 0x80, 0, 0, 0, 0, 0, 0, 0, 0, 0, 0, 0, 0, 0, 1],
             IPNetAddr [192, 168, 1, 7],
             IPNetAddr [0x20, 0x01, 0x0d, 0xb8, 0, 0, 0, 0, 0, 0, 0, 0, 0, 0, 0, 2]]\<rparr>,
         \<lparr>sys_Name = ''en1'', sys_Loopback = False, sys_Up = True, sys_MTU = 1500,
          sys_HardwareAddr = ''00:11:22:33:44:66'',
          sys_Addrs = Some
            [IPNetAddr [0xfe, 0x80, 0, 0, 0, 0, 0, 0, 0, 0, 0, 0, 0, 0, 0, 1],
             IPNetAddr [10, 1, 2, 3]]\<rparr>,
         \<lparr>sys_Name = ''en2'', sys_Loopback = False, sys_Up = True, sys_MTU = 1500,
          sys_HardwareAddr = ''00:11:22:33:44:77'',
          sys_Addrs = Some [IPNetAddr [10, 1, 2, 3]]\<rparr>],
      osDial = (\<lambda>localAddr t network address.
                  if HasPrefix address ''down.example.com:'' then Inl ''connection refused''
                  else if address = ''[[::1]:8080]:80'' then Inl ''no such host''
                  else Inr (sample_conn localAddr))\<rparr>"

text \<open>The rules of the examples.\<close>

definition sample_rules :: "RouteRule list" where
  "sample_rules =
     [\<lparr>ID = ''r0'', Name = ''Off'',
       Match = \<lparr>Domains = [], IPs = [], Ports = [], Protocol = ''''\<rparr>,
       Interface = ''wifi'', Enabled = False\<rparr>,
      \<lparr>ID = ''r1'', Name = ''Example'',
       Match = \<lparr>Domains = [''*.example.com''], IPs = [], Ports = [], Protocol = ''''\<rparr>,
       Interface = ''wifi'', Enabled = True\<rparr>,
      \<lparr>ID = ''r2'', Name = ''LAN'',
       Match = \<lparr>Domains = [], IPs = [''10.0.0.0/8''], Ports = [], Protocol = ''''\<rparr>,
       Interface = ''wifi'', Enabled = True\<rparr>,
      \<lparr>ID = ''r3'', Name = ''SSH'',
       Match = \<lparr>Domains = [], IPs = [], Ports = [22], Protocol = ''''\<rparr>,
       Interface = ''cable'', Enabled = True\<rparr>]"

definition ip_only_rule :: RouteRule where
  "ip_only_rule =
     \<lparr>ID = ''lan'', Name = ''LAN'',
      Match = \<lparr>Domains = [], IPs = [''10.0.0.0/8'', ''192.168.1.7''], Ports = [],
               Protocol = ''''\<rparr>,
      Interface = ''wifi'', Enabled = True\<rparr>"

definition domain_ip_rule :: RouteRule where
  "domain_ip_rule =
     \<lparr>ID = ''mixed'', Name = ''Mixed'',
      Match = \<lparr>Domains = [''*.example.com''], IPs = [''10.0.0.0/8''], Ports = [443],
               Protocol = ''''\<rparr>,
      Interface = ''wifi'', Enabled = True\<rparr>"

text \<open>The interfaces that \<open>ListInterfaces\<close> reports on the host of the examples.\<close>

definition sample_en0 :: Interface where
  "sample_en0 =
     \<lparr>ifName = ''en0'', ifType = ''cable'', IPv4Addrs = [''192.168.1.7''],
      IPv6Addrs = [''fe80::1'', ''2001:db8::2''], MACAddress = ''00:11:22:33:44:55'',
      IsUp = True, MTU = 1500\<rparr>"

definition sample_en1 :: Interface where
  "sample_en1 =
     \<lparr>ifName = ''en1'', ifType = ''wifi'', IPv4Addrs = [''10.1.2.3''],
      IPv6Addrs = [''fe80::1''], MACAddress = ''00:11:22:33:44:66'',
      IsUp = True, MTU = 1500\<rparr>"

definition sample_en2 :: Interface where
  "sample_en2 =
     \<lparr>ifName = ''en2'', ifType = ''cable'', IPv4Addrs = [''10.1.2.3''],
      IPv6Addrs = [], MACAddress = ''00:11:22:33:44:77'',
      IsUp = True, MTU = 1500\<rparr>"

definition sample_im :: InterfaceManager where
  "sample_im = NewInterfaceManager ''en0'' ''en1''"

definition sample_dialer :: InterfaceDialer where
  "sample_dialer = NewInterfaceDialer sample_im 0"

text \<open>
  The servers of the examples, and three clients: one that asks the SOCKS5 server for
  \<^verbatim>\<open>down.example.com:443\<close> (no authentication, CONNECT, a domain name), and two that
  send the HTTP proxy a CONNECT request, for \<^verbatim>\<open>down.example.com:443\<close> and for
  \<^verbatim>\<open>example.com:443\<close>. The examples forward no plain request upstream.
\<close>

definition sample_socks :: SOCKS5Server where
  "sample_socks = \<lparr>socks_addr = ''127.0.0.1:1080'', socks_router = NewRouter sample_rules,
                    socks_dialer = sample_dialer\<rparr>"

definition sample_http :: HTTPProxyServer where
  "sample_http = \<lparr>http_addr = ''127.0.0.1:8080'', http_router = NewRouter sample_rules,
                   http_dialer = sample_dialer\<rparr>"

definition client :: "byte list \<Rightarrow> Conn" where
  "client input =
     \<lparr>LocalAddr = \<lparr>addr_IP = IPv4 127 0 0 1, addr_Port = 1080\<rparr>,
      isTCPConn = True, incoming = input, writable = True\<rparr>"

definition socks_down_client :: Conn where
  "socks_down_client =
     client ([0x05, 0x01, 0x00] @ [0x05, 0x01, 0x00, 0x03, 16] @ bytes ''down.example.com'' @
             [0x01, 0xBB])"

definition http_down_client :: Conn where
  "http_down_client = client (connect_request ''down.example.com:443'')"

definition http_get_down_client :: Conn where
  "http_get_down_client = client (get_request ''down.example.com:443'')"

definition http_up_client :: Conn where
  "http_up_client = client (connect_request ''example.com:443'')"

text \<open>
  An HTTP proxy whose only rule sends port 8080 to wifi, on a host where the wifi
  interface (\<^verbatim>\<open>en9\<close>) is absent: a request routed to wifi is dialled unbound, with a
  warning; any other request is routed to cable (\<^verbatim>\<open>en0\<close>) by default.
\<close>

definition alt_http :: HTTPProxyServer where
  "alt_http =
     \<lparr>http_addr = ''127.0.0.1:8080'',
      http_router = NewRouter
        [\<lparr>ID = ''alt'', Name = ''Alt'',
          Match = \<lparr>Domains = [], IPs = [], Ports = [8080], Protocol = []\<rparr>,
          Interface = ''wifi'', Enabled = True\<rparr>],
      http_dialer = NewInterfaceDialer (NewInterfaceManager ''en0'' ''en9'') 0\<rparr>"

definition get_req :: "string \<Rightarrow> Request" where
  "get_req h = \<lparr>Method = ''GET'', Host = h, URL = ''http://'' @ h @ ''/''\<rparr>"

section \<open>Properties of the glob matcher\<close>

lemma HasSuffix_suffix: "HasSuffix s x \<longleftrightarrow> suffix x s"
proof
  assume "HasSuffix s x"
  then have "s = take (length s - length x) s @ x"
    by (metis HasSuffix_def append_take_drop_id)
  then show "suffix x s" by (metis suffixI)
next
  assume "suffix x s"
  then obtain y where "s = y @ x" by (auto simp: suffix_def)
  then show "HasSuffix s x" by (simp add: HasSuffix_def)
qed

lemma scanLoop_meta_free: "meta_free s \<Longrightarrow> scanLoop False s = length s"
  by (induction s) (auto simp: meta_free_def)

lemma matchChunkLoop_meta_free:
  "meta_free c \<Longrightarrow>
   matchChunkLoop failed c s =
     (if \<not> failed \<and> prefix c s then Ok (drop (length c) s) else NoMatch)"
proof (induction c arbitrary: failed s)
  case Nil
  then show ?case by (simp add: matchChunkLoop.simps)
next
  case (Cons a c)
  then have mf: "meta_free c" and a: "a \<noteq> CHR ''*''" "a \<noteq> CHR ''?''" "a \<noteq> CHR ''[''" "a \<noteq> backslash"
    by (auto simp: meta_free_def)
  show ?case
  proof (cases s)
    case Nil
    then show ?thesis using a by (simp add: matchChunkLoop.simps(2) Cons.IH [OF mf])
  next
    case (Cons b t)
    then show ?thesis using a by (simp add: matchChunkLoop.simps(2) Cons.IH [OF mf])
  qed
qed

lemma matchChunk_meta_free:
  "meta_free c \<Longrightarrow> matchChunk c s = (if prefix c s then Ok (drop (length c) s) else NoMatch)"
  by (simp add: matchChunk_def matchChunkLoop_meta_free)

lemma starSkip_meta_free:
  "meta_free chunk \<Longrightarrow> starSkip chunk True name = Found t \<Longrightarrow> t = [] \<and> suffix chunk name"
proof (induction name)
  case Nil
  then show ?case by simp
next
  case (Cons c cs)
  show ?case
  proof (cases "c = Separator")
    case True
    with Cons.prems show ?thesis by simp
  next
    case False
    show ?thesis
    proof (cases "prefix chunk cs \<and> drop (length chunk) cs = []")
      case True
      then have "cs = chunk"
        by (metis append_Nil2 append_take_drop_id prefix_def append_eq_conv_conj)
      moreover from True False Cons.prems(1,2) have "t = []"
        by (simp add: matchChunk_meta_free)
      ultimately show ?thesis by (simp add: suffix_Cons)
    next
      case no: False
      with False Cons.prems have "starSkip chunk True cs = Found t"
        by (auto simp: matchChunk_meta_free split: if_splits)
      with Cons.IH Cons.prems(1) show ?thesis by (simp add: suffix_Cons)
    qed
  qed
qed

lemma filepath_Match_Nil: "filepath_Match [] t \<longleftrightarrow> t = []"
  by (subst filepath_Match.simps) simp

lemma scanChunk_wildcard:
  assumes "meta_free d"
  shows "scanChunk (CHR ''*'' # CHR ''.'' # d) = (True, CHR ''.'' # d, [])"
proof -
  from assms have "meta_free (CHR ''.'' # d)" by (simp add: meta_free_def backslash_def)
  then have "scanLoop False (CHR ''.'' # d) = length (CHR ''.'' # d)" by (rule scanLoop_meta_free)
  then show ?thesis by (simp add: scanChunk_def Let_def)
qed

lemma filepath_Match_wildcard:
  assumes "meta_free d" and "filepath_Match (CHR ''*'' # CHR ''.'' # d) h"
  shows "suffix (CHR ''.'' # d) h"
proof -
  let ?c = "CHR ''.'' # d"
  have mf: "meta_free ?c" using assms(1) by (simp add: meta_free_def backslash_def)
  have unf: "filepath_Match (CHR ''*'' # ?c) h =
      (case matchChunk ?c h of
         ErrBadPattern \<Rightarrow> False
       | Ok t \<Rightarrow> if t = [] then True
                 else (case starSkip ?c True h of Found t' \<Rightarrow> t' = [] | NotFound \<Rightarrow> False | SkipErr \<Rightarrow> False)
       | NoMatch \<Rightarrow> (case starSkip ?c True h of Found t' \<Rightarrow> t' = [] | NotFound \<Rightarrow> False | SkipErr \<Rightarrow> False))"
    by (subst filepath_Match.simps)
       (simp add: scanChunk_wildcard [OF assms(1)] filepath_Match_Nil
             split: chunk_result.splits skip_result.splits)
  show ?thesis
  proof (cases "prefix ?c h \<and> drop (length ?c) h = []")
    case True
    then have "h = ?c"
      by (metis append_Nil2 append_take_drop_id prefix_def append_eq_conv_conj)
    then show ?thesis by simp
  next
    case False
    with assms(2) obtain t where "starSkip ?c True h = Found t"
      unfolding unf matchChunk_meta_free [OF mf]
      by (auto split: skip_result.splits if_splits)
    then show ?thesis using starSkip_meta_free [OF mf] by blast
  qed
qed

lemma of_char_lower_byte:
  "(of_char (lower_byte c) :: nat) =
     (if 65 \<le> (of_char c :: nat) \<and> (of_char c :: nat) \<le> 90 then of_char c + 32 else of_char c)"
  by (simp add: lower_byte_def)

lemma lower_byte_other:
  assumes "\<not> (65 \<le> (of_char x :: nat) \<and> (of_char x :: nat) \<le> 90)"
      and "\<not> (97 \<le> (of_char x :: nat) \<and> (of_char x :: nat) \<le> 122)"
  shows "lower_byte c = x \<longleftrightarrow> c = x"
proof
  assume "c = x"
  with assms(1) show "lower_byte c = x" by (auto simp: lower_byte_def)
next
  assume eq: "lower_byte c = x"
  show "c = x"
  proof (cases "65 \<le> (of_char c :: nat) \<and> (of_char c :: nat) \<le> 90")
    case True
    have "(of_char x :: nat) = of_char (lower_byte c)" using eq by simp
    also have "\<dots> = of_char c + 32" using True by (simp add: of_char_lower_byte)
    finally show ?thesis using True assms(2) by simp
  next
    case False
    with eq show ?thesis by (simp add: lower_byte_def)
  qed
qed

lemma lower_byte_meta:
  "lower_byte c = CHR ''*'' \<longleftrightarrow> c = CHR ''*''"
  "lower_byte c = CHR ''?'' \<longleftrightarrow> c = CHR ''?''"
  "lower_byte c = CHR ''['' \<longleftrightarrow> c = CHR ''[''"
  "lower_byte c = backslash \<longleftrightarrow> c = backslash"
  by (simp_all add: lower_byte_other backslash_def)

lemma sample_ToLower_meta_free:
  "meta_free s \<Longrightarrow> meta_free (ToLower sample_lib s)"
  by (induction s)
     (auto simp: meta_free_def sample_lib_def sample_ToLower_def lower_byte_meta)

lemma sample_ToLower_wildcard:
  "ToLower sample_lib (''*.'' @ s) = ''*.'' @ ToLower sample_lib s"
  by (simp add: sample_lib_def sample_ToLower_def lower_byte_def)

section \<open>Properties of the routing engine\<close>

lemma routeLoop_decision:
  "routeLoop lib rs host port =
     \<lparr>res_Interface = ''cable'', RuleID = ''default'', RuleName = ''Default''\<rparr> \<or>
   (\<exists>rule \<in> set rs. Enabled rule \<and> matchRule lib rule host port \<and>
      routeLoop lib rs host port =
        \<lparr>res_Interface = Interface rule, RuleID = ID rule, RuleName = Name rule\<rparr>)"
  by (induction rs) (auto simp: defaultResult_def)

text \<open>
  C1. For every rule list and every (host, port), \<open>Route\<close> returns either the synthetic
  default decision, with label \<^verbatim>\<open>cable\<close>, id \<^verbatim>\<open>default\<close> and name \<^verbatim>\<open>Default\<close>, or the
  decision built from an enabled rule of the list that matches the destination: label,
  id and name are that rule's. A disabled rule never supplies the decision.
\<close>

theorem Route_enabled_or_default:
  "Route lib r host port =
     \<lparr>res_Interface = ''cable'', RuleID = ''default'', RuleName = ''Default''\<rparr> \<or>
   (\<exists>rule \<in> set (rules r). Enabled rule \<and> matchRule lib rule host port \<and>
      Route lib r host port =
        \<lparr>res_Interface = Interface rule, RuleID = ID rule, RuleName = Name rule\<rparr>)"
  unfolding Route_def by (rule routeLoop_decision)

text \<open>
  The rule list of the examples: the disabled catch-all is passed over, a host under
  \<^verbatim>\<open>example.com\<close> is routed by the first enabled rule, and a host that no rule matches
  gets the default, as does every host on an empty rule list.
\<close>

theorem Route_enabled_or_default_witness:
  "(Route sample_lib (NewRouter sample_rules) ''www.example.com'' 443 =
      \<lparr>res_Interface = ''cable'', RuleID = ''default'', RuleName = ''Default''\<rparr> \<or>
    (\<exists>rule \<in> set (rules (NewRouter sample_rules)).
       Enabled rule \<and> matchRule sample_lib rule ''www.example.com'' 443 \<and>
       Route sample_lib (NewRouter sample_rules) ''www.example.com'' 443 =
         \<lparr>res_Interface = Interface rule, RuleID = ID rule, RuleName = Name rule\<rparr>)) \<and>
   Route sample_lib (NewRouter sample_rules) ''www.example.com'' 443 =
     \<lparr>res_Interface = ''wifi'', RuleID = ''r1'', RuleName = ''Example''\<rparr> \<and>
   Route sample_lib (NewRouter sample_rules) ''example.org'' 443 =
     \<lparr>res_Interface = ''cable'', RuleID = ''default'', RuleName = ''Default''\<rparr> \<and>
   Route sample_lib (NewRouter []) ''example.org'' 443 =
     \<lparr>res_Interface = ''cable'', RuleID = ''default'', RuleName = ''Default''\<rparr>"
proof (intro conjI)
  show "Route sample_lib (NewRouter sample_rules) ''www.example.com'' 443 =
      \<lparr>res_Interface = ''cable'', RuleID = ''default'', RuleName = ''Default''\<rparr> \<or>
    (\<exists>rule \<in> set (rules (NewRouter sample_rules)).
       Enabled rule \<and> matchRule sample_lib rule ''www.example.com'' 443 \<and>
       Route sample_lib (NewRouter sample_rules) ''www.example.com'' 443 =
         \<lparr>res_Interface = Interface rule, RuleID = ID rule, RuleName = Name rule\<rparr>)"
    by (rule Route_enabled_or_default)
  show "Route sample_lib (NewRouter sample_rules) ''www.example.com'' 443 =
     \<lparr>res_Interface = ''wifi'', RuleID = ''r1'', RuleName = ''Example''\<rparr>"
    by code_simp
  show "Route sample_lib (NewRouter sample_rules) ''example.org'' 443 =
     \<lparr>res_Interface = ''cable'', RuleID = ''default'', RuleName = ''Default''\<rparr>"
    by code_simp
  show "Route sample_lib (NewRouter []) ''example.org'' 443 =
     \<lparr>res_Interface = ''cable'', RuleID = ''default'', RuleName = ''Default''\<rparr>"
    using Route_enabled_or_default [of sample_lib "NewRouter []" "''example.org''" 443]
    by (simp add: NewRouter_def)
qed

text \<open>
  C3 (amended). For every domain pattern \<^verbatim>\<open>*.d\<close> in which \<open>d\<close> holds none of the glob
  operators \<^verbatim>\<open>*\<close>, \<^verbatim>\<open>?\<close>, \<^verbatim>\<open>[\<close> and backslash, and every host \<open>h\<close>,
  \<open>matchDomain\<close> accepts \<open>h\<close> if and only if, after lowercasing both sides,
  \<open>h\<close> equals \<open>d\<close> or \<open>h\<close> ends with \<^verbatim>\<open>.d\<close>. Two laws of \<^verbatim>\<open>strings.ToLower\<close>
  are assumed of the library: it leaves the prefix \<^verbatim>\<open>*.\<close> of a string in place, and it
  brings no glob operator into a string that has none.
\<close>

theorem matchDomain_wildcard:
  assumes free: "meta_free d"
      and lower_prefix: "\<And>s. ToLower lib (''*.'' @ s) = ''*.'' @ ToLower lib s"
      and lower_free: "\<And>s. meta_free s \<Longrightarrow> meta_free (ToLower lib s)"
  shows "matchDomain lib (''*.'' @ d) h \<longleftrightarrow>
           ToLower lib h = ToLower lib d \<or>
           suffix (''.'' @ ToLower lib d) (ToLower lib h)"
proof -
  have pat: "ToLower lib (''*.'' @ d) = ''*.'' @ ToLower lib d"
    by (rule lower_prefix)
  have mf: "meta_free (ToLower lib d)" using free by (rule lower_free)
  have glob: "filepath_Match (''*.'' @ ToLower lib d) (ToLower lib h) \<Longrightarrow>
                suffix (''.'' @ ToLower lib d) (ToLower lib h)"
    using filepath_Match_wildcard [OF mf] by simp
  have self: "ToLower lib h = ''*.'' @ ToLower lib d \<Longrightarrow>
                suffix (''.'' @ ToLower lib d) (ToLower lib h)"
    by (simp add: suffix_Cons)
  show ?thesis
    unfolding matchDomain_def Let_def pat
    using glob self
    by (auto simp: HasPrefix_def HasSuffix_suffix)
qed

text \<open>
  The pattern \<^verbatim>\<open>*.Example.com\<close> accepts the hosts \<^verbatim>\<open>WWW.example.COM\<close> and
  \<^verbatim>\<open>example.com\<close>, and not the host \<^verbatim>\<open>badexample.com\<close>.
\<close>

theorem matchDomain_wildcard_witness:
  "meta_free ''Example.com'' \<and>
   (matchDomain sample_lib (''*.'' @ ''Example.com'') ''WWW.example.COM'' \<longleftrightarrow>
      ToLower sample_lib ''WWW.example.COM'' = ToLower sample_lib ''Example.com'' \<or>
      suffix (''.'' @ ToLower sample_lib ''Example.com'')
        (ToLower sample_lib ''WWW.example.COM'')) \<and>
   matchDomain sample_lib (''*.'' @ ''Example.com'') ''WWW.example.COM'' \<and>
   matchDomain sample_lib (''*.'' @ ''Example.com'') ''example.com'' \<and>
   \<not> matchDomain sample_lib (''*.'' @ ''Example.com'') ''badexample.com''"
proof -
  have a: "meta_free ''Example.com''" by code_simp
  note th = matchDomain_wildcard [OF a sample_ToLower_wildcard sample_ToLower_meta_free]
  have s1: "suffix (''.'' @ ToLower sample_lib ''Example.com'')
              (ToLower sample_lib ''WWW.example.COM'')"
    by code_simp
  have e2: "ToLower sample_lib ''example.com'' = ToLower sample_lib ''Example.com''"
    by code_simp
  have n3: "\<not> (ToLower sample_lib ''badexample.com'' = ToLower sample_lib ''Example.com'' \<or>
               suffix (''.'' @ ToLower sample_lib ''Example.com'')
                 (ToLower sample_lib ''badexample.com''))"
    by code_simp
  have m1: "matchDomain sample_lib (''*.'' @ ''Example.com'') ''WWW.example.COM''"
    using th [of "''WWW.example.COM''"] s1 by blast
  have m2: "matchDomain sample_lib (''*.'' @ ''Example.com'') ''example.com''"
    using th [of "''example.com''"] e2 by blast
  have m3: "\<not> matchDomain sample_lib (''*.'' @ ''Example.com'') ''badexample.com''"
    using th [of "''badexample.com''"] n3 by blast
  from a th [of "''WWW.example.COM''"] m1 m2 m3 show ?thesis by blast
qed

text \<open>
  The claim without the restriction on \<open>d\<close> fails: the pattern \<^verbatim>\<open>*.example.*\<close> accepts
  the host \<^verbatim>\<open>www.example.org\<close> through the glob, and that host neither equals
  \<^verbatim>\<open>example.*\<close> nor ends with \<^verbatim>\<open>.example.*\<close>.
\<close>

theorem matchDomain_wildcard_counterexample:
  "\<not> (matchDomain sample_lib (''*.'' @ ''example.*'') ''www.example.org'' \<longleftrightarrow>
        ToLower sample_lib ''www.example.org'' = ToLower sample_lib ''example.*'' \<or>
        suffix (''.'' @ ToLower sample_lib ''example.*'')
          (ToLower sample_lib ''www.example.org''))"
  by code_simp

lemma domainsMatched_iff:
  "domainsMatched lib ps host \<longleftrightarrow> (\<exists>p \<in> set ps. matchDomain lib p host)"
  by (induction ps) auto

lemma portsMatched_iff: "portsMatched ps port \<longleftrightarrow> port \<in> set ps"
  by (induction ps) auto

lemma ipsMatched_iff:
  "ipsMatched lib cs ip \<longleftrightarrow>
     (\<exists>e \<in> set cs. case ParseCIDR lib e of
                      Some ipNet \<Rightarrow> Contains ipNet ip
                    | None \<Rightarrow> Equal (orNil (ParseIP lib e)) ip)"
  by (induction cs) (auto split: option.splits)

text \<open>
  C4. For a rule with a non-empty IP clause: when the host does not parse as an IP literal
  and the rule has no domain clause, the rule does not match; when the host does not
  parse as an IP literal and the domain clause has accepted it, the IP clause is skipped
  and the rule matches exactly when the port clause does (an empty port clause accepts);
  when the host parses as an IP literal, the rule matches exactly when the domain clause
  (if any) accepts the host, some entry of the IP clause matches the address (an entry
  that parses as a CIDR block by containment, any other entry by equality with the
  address it parses to) and the port clause accepts.
\<close>

theorem matchRule_ip_clause:
  assumes "IPs (Match rule) \<noteq> []"
  shows "(ParseIP lib host = None \<and> Domains (Match rule) = [] \<longrightarrow>
            \<not> matchRule lib rule host port) \<and>
         (ParseIP lib host = None \<and> domainsMatched lib (Domains (Match rule)) host \<longrightarrow>
            (matchRule lib rule host port \<longleftrightarrow>
               Ports (Match rule) = [] \<or> port \<in> set (Ports (Match rule)))) \<and>
         (\<forall>ip. ParseIP lib host = Some ip \<longrightarrow>
            (matchRule lib rule host port \<longleftrightarrow>
               (Domains (Match rule) = [] \<or>
                  (\<exists>p \<in> set (Domains (Match rule)). matchDomain lib p host)) \<and>
               (\<exists>e \<in> set (IPs (Match rule)).
                  case ParseCIDR lib e of
                    Some ipNet \<Rightarrow> Contains ipNet ip
                  | None \<Rightarrow> Equal (orNil (ParseIP lib e)) ip) \<and>
               (Ports (Match rule) = [] \<or> port \<in> set (Ports (Match rule)))))"
proof (intro conjI allI impI)
  assume "ParseIP lib host = None \<and> Domains (Match rule) = []"
  with assms show "\<not> matchRule lib rule host port"
    by (simp add: matchRule_def Let_def)
next
  assume h: "ParseIP lib host = None \<and> domainsMatched lib (Domains (Match rule)) host"
  then have "Domains (Match rule) \<noteq> []" by auto
  with h assms show "matchRule lib rule host port \<longleftrightarrow>
      Ports (Match rule) = [] \<or> port \<in> set (Ports (Match rule))"
    by (auto simp: matchRule_def Let_def portsMatched_iff)
next
  fix ip
  assume "ParseIP lib host = Some ip"
  with assms show "matchRule lib rule host port \<longleftrightarrow>
      (Domains (Match rule) = [] \<or> (\<exists>p \<in> set (Domains (Match rule)). matchDomain lib p host)) \<and>
      (\<exists>e \<in> set (IPs (Match rule)).
         case ParseCIDR lib e of
           Some ipNet \<Rightarrow> Contains ipNet ip
         | None \<Rightarrow> Equal (orNil (ParseIP lib e)) ip) \<and>
      (Ports (Match rule) = [] \<or> port \<in> set (Ports (Match rule)))"
    unfolding matchRule_def Let_def portsMatched_iff domainsMatched_iff ipsMatched_iff
    by (cases "Domains (Match rule) = []"; cases "Ports (Match rule) = []") auto
qed

text \<open>
  A rule with IPs only fails on a host name and matches the addresses its entries cover;
  a rule with domains and IPs is decided by its domain and port clauses on a host name.
\<close>

theorem matchRule_ip_clause_witness:
  "IPs (Match ip_only_rule) \<noteq> [] \<and> IPs (Match domain_ip_rule) \<noteq> [] \<and>
   ParseIP sample_lib ''example.com'' = None \<and> Domains (Match ip_only_rule) = [] \<and>
   \<not> matchRule sample_lib ip_only_rule ''example.com'' 443 \<and>
   ParseIP sample_lib ''www.example.com'' = None \<and>
   domainsMatched sample_lib (Domains (Match domain_ip_rule)) ''www.example.com'' \<and>
   matchRule sample_lib domain_ip_rule ''www.example.com'' 443 \<and>
   \<not> matchRule sample_lib domain_ip_rule ''www.example.com'' 80 \<and>
   ParseIP sample_lib ''10.1.2.3'' = Some (IPv4 10 1 2 3) \<and>
   matchRule sample_lib ip_only_rule ''10.1.2.3'' 80 \<and>
   ParseIP sample_lib ''192.168.1.7'' = Some (IPv4 192 168 1 7) \<and>
   matchRule sample_lib ip_only_rule ''192.168.1.7'' 80 \<and>
   ParseIP sample_lib ''2001:db8::1'' =
     Some [0x20, 0x01, 0x0d, 0xb8, 0, 0, 0, 0, 0, 0, 0, 0, 0, 0, 0, 1] \<and>
   \<not> matchRule sample_lib ip_only_rule ''2001:db8::1'' 80"
proof -
  have i1: "IPs (Match ip_only_rule) \<noteq> []" by (simp add: ip_only_rule_def)
  have i2: "IPs (Match domain_ip_rule) \<noteq> []" by (simp add: domain_ip_rule_def)
  have d1: "Domains (Match ip_only_rule) = []" by (simp add: ip_only_rule_def)
  have p1: "ParseIP sample_lib ''example.com'' = None" by code_simp
  have p2: "ParseIP sample_lib ''www.example.com'' = None" by code_simp
  have p3: "ParseIP sample_lib ''10.1.2.3'' = Some (IPv4 10 1 2 3)" by code_simp
  have p4: "ParseIP sample_lib ''192.168.1.7'' = Some (IPv4 192 168 1 7)" by code_simp
  have p5: "ParseIP sample_lib ''2001:db8::1'' =
     Some [0x20, 0x01, 0x0d, 0xb8, 0, 0, 0, 0, 0, 0, 0, 0, 0, 0, 0, 1]" by code_simp
  have dm: "domainsMatched sample_lib (Domains (Match domain_ip_rule)) ''www.example.com''" by code_simp
  note a = matchRule_ip_clause [OF i1, of sample_lib "''example.com''" 443]
  note b = matchRule_ip_clause [OF i2, of sample_lib "''www.example.com''" 443]
  note c = matchRule_ip_clause [OF i2, of sample_lib "''www.example.com''" 80]
  have r1: "\<not> matchRule sample_lib ip_only_rule ''example.com'' 443"
    using a p1 d1 by blast
  have r2: "matchRule sample_lib domain_ip_rule ''www.example.com'' 443"
    using b p2 dm by (simp add: domain_ip_rule_def)
  have r3: "\<not> matchRule sample_lib domain_ip_rule ''www.example.com'' 80"
    using c p2 dm by (simp add: domain_ip_rule_def)
  have r4: "matchRule sample_lib ip_only_rule ''10.1.2.3'' 80" by code_simp
  have r5: "matchRule sample_lib ip_only_rule ''192.168.1.7'' 80" by code_simp
  have r6: "\<not> matchRule sample_lib ip_only_rule ''2001:db8::1'' 80" by code_simp
  from i1 i2 d1 p1 p2 p3 p4 p5 dm r1 r2 r3 r4 r5 r6 show ?thesis by blast
qed

section \<open>Properties of the interface registry and of the dialer\<close>

lemma selectIPv6_fst:
  "fst (selectIPv6 lib as h) = (case find (globalEntry lib) as of Some a \<Rightarrow> a | None \<Rightarrow> [])"
  by (induction as arbitrary: h) (auto simp: globalEntry_def split: option.splits)

lemma selectIPv6_snd:
  "find (globalEntry lib) as = None \<Longrightarrow>
   snd (selectIPv6 lib as h) = (h \<or> list_ex (linkLocalEntry lib) as)"
  by (induction as arbitrary: h)
     (auto simp: globalEntry_def linkLocalEntry_def split: option.splits if_splits)

lemma all_linkLocal_no_global:
  "list_all (linkLocalEntry lib) as \<Longrightarrow> find (globalEntry lib) as = None"
  by (induction as) (auto simp: globalEntry_def linkLocalEntry_def split: option.splits)

lemma find_globalEntry:
  "find (globalEntry lib) as = Some a \<Longrightarrow> globalEntry lib a"
  by (induction as) (auto split: if_splits)

text \<open>
  C5 (amended). When the label is bound to an interface and the target host parses as an
  IPv6 literal that is not an IPv4-mapped one (the library returns its 16 bytes, and
  their IPv4 form \<open>To4\<close> is nil), the library parsing no address out of the empty
  string, \<open>GetLocalAddrForTarget\<close>
  \<^item> fails with the error "no IPv6 address found" (\<open>InterfaceNoIPv6\<close> in the
    specification) when the interface has no IPv6 address;
  \<^item> fails with the error "only has link-local IPv6 address" (\<open>InterfaceIPv6Unusable\<close>)
    when the interface has IPv6 addresses and all of them are link-local;
  \<^item> returns the first global (not link-local) IPv6 address of the interface, with port
    0, when there is one;
  \<^item> never returns a link-local address.
\<close>

theorem GetLocalAddrForTarget_ipv6:
  assumes iface: "GetInterfaceByType lib os im interfaceType = Inr iface"
      and parsed: "ParseIP lib (targetHost lib targetAddr) = Some targetIP"
      and sixteen: "length targetIP = IPv6len"
      and not_mapped: "To4 targetIP = None"
      and empty: "ParseIP lib [] = None"
  shows
   "(IPv6Addrs iface = [] \<longrightarrow>
       GetLocalAddrForTarget lib os im interfaceType targetAddr =
         Inl (ErrNoIPv6 (ifName iface) (targetHost lib targetAddr))) \<and>
    (IPv6Addrs iface \<noteq> [] \<and> list_all (linkLocalEntry lib) (IPv6Addrs iface) \<longrightarrow>
       GetLocalAddrForTarget lib os im interfaceType targetAddr =
         Inl (ErrOnlyLinkLocalIPv6 (ifName iface) (targetHost lib targetAddr))) \<and>
    (\<forall>a ip. find (globalEntry lib) (IPv6Addrs iface) = Some a \<and> ParseIP lib a = Some ip \<longrightarrow>
       GetLocalAddrForTarget lib os im interfaceType targetAddr =
         Inr \<lparr>addr_IP = ip, addr_Port = 0\<rparr>) \<and>
    (\<forall>addr. GetLocalAddrForTarget lib os im interfaceType targetAddr = Inr addr \<longrightarrow>
       \<not> IsLinkLocalUnicast (addr_IP addr))"
proof -
  let ?sel = "selectIPv6 lib (IPv6Addrs iface) False"
  have target: "isIPv6Target lib targetAddr"
    using parsed sixteen not_mapped by (simp add: isIPv6Target_def To16_def)
  have unf: "GetLocalAddrForTarget lib os im interfaceType targetAddr =
      (if IPv6Addrs iface = [] then Inl (ErrNoIPv6 (ifName iface) (targetHost lib targetAddr))
       else if fst ?sel = [] then
         (if snd ?sel then Inl (ErrOnlyLinkLocalIPv6 (ifName iface) (targetHost lib targetAddr))
          else Inl (ErrNoUsableIPv6 (ifName iface) (targetHost lib targetAddr)))
       else (case ParseIP lib (fst ?sel) of
               None \<Rightarrow> Inl (ErrParseIPv6 (fst ?sel))
             | Some ip \<Rightarrow> Inr \<lparr>addr_IP = ip, addr_Port = 0\<rparr>))"
    using iface target
    by (cases "selectIPv6 lib (IPv6Addrs iface) False")
       (simp add: GetLocalAddrForTarget_def Let_def split: option.splits)
  have c1: "IPv6Addrs iface = [] \<longrightarrow>
       GetLocalAddrForTarget lib os im interfaceType targetAddr =
         Inl (ErrNoIPv6 (ifName iface) (targetHost lib targetAddr))"
    by (simp add: unf)
  have c2: "IPv6Addrs iface \<noteq> [] \<and> list_all (linkLocalEntry lib) (IPv6Addrs iface) \<longrightarrow>
       GetLocalAddrForTarget lib os im interfaceType targetAddr =
         Inl (ErrOnlyLinkLocalIPv6 (ifName iface) (targetHost lib targetAddr))"
  proof
    assume h: "IPv6Addrs iface \<noteq> [] \<and> list_all (linkLocalEntry lib) (IPv6Addrs iface)"
    then have none: "find (globalEntry lib) (IPv6Addrs iface) = None"
      by (simp add: all_linkLocal_no_global)
    from h have "list_ex (linkLocalEntry lib) (IPv6Addrs iface)"
      by (cases "IPv6Addrs iface") auto
    with none have "snd ?sel" by (simp add: selectIPv6_snd)
    moreover from none have "fst ?sel = []" by (simp add: selectIPv6_fst)
    ultimately show "GetLocalAddrForTarget lib os im interfaceType targetAddr =
         Inl (ErrOnlyLinkLocalIPv6 (ifName iface) (targetHost lib targetAddr))"
      using h by (simp add: unf)
  qed
  have c3: "\<forall>a ip. find (globalEntry lib) (IPv6Addrs iface) = Some a \<and> ParseIP lib a = Some ip \<longrightarrow>
       GetLocalAddrForTarget lib os im interfaceType targetAddr =
         Inr \<lparr>addr_IP = ip, addr_Port = 0\<rparr>"
  proof (intro allI impI)
    fix a ip
    assume h: "find (globalEntry lib) (IPv6Addrs iface) = Some a \<and> ParseIP lib a = Some ip"
    then have sel: "fst ?sel = a" by (simp add: selectIPv6_fst)
    from h empty have "a \<noteq> []" by auto
    moreover from h have "IPv6Addrs iface \<noteq> []" by auto
    ultimately show "GetLocalAddrForTarget lib os im interfaceType targetAddr =
         Inr \<lparr>addr_IP = ip, addr_Port = 0\<rparr>"
      using h sel by (simp add: unf)
  qed
  have c4: "\<forall>addr. GetLocalAddrForTarget lib os im interfaceType targetAddr = Inr addr \<longrightarrow>
       \<not> IsLinkLocalUnicast (addr_IP addr)"
  proof (intro allI impI)
    fix addr
    assume r: "GetLocalAddrForTarget lib os im interfaceType targetAddr = Inr addr"
    then obtain ip where ne: "fst ?sel \<noteq> []" and p: "ParseIP lib (fst ?sel) = Some ip"
      and a: "addr = \<lparr>addr_IP = ip, addr_Port = 0\<rparr>"
      unfolding unf by (auto split: if_splits option.splits)
    from ne obtain a' where f: "find (globalEntry lib) (IPv6Addrs iface) = Some a'"
      by (auto simp: selectIPv6_fst split: option.splits)
    then have "fst ?sel = a'" by (simp add: selectIPv6_fst)
    moreover from f have "globalEntry lib a'" by (rule find_globalEntry)
    ultimately have "\<not> IsLinkLocalUnicast ip" using p by (simp add: globalEntry_def)
    with a show "\<not> IsLinkLocalUnicast (addr_IP addr)" by simp
  qed
  from c1 c2 c3 c4 show ?thesis by blast
qed


text \<open>
  On the host of the examples, for the target \<^verbatim>\<open>[2001:db8::1]:443\<close>: \<^verbatim>\<open>en0\<close> yields
  its global address, passing over the link-local one before it; \<^verbatim>\<open>en1\<close> has a
  link-local address only; \<^verbatim>\<open>en2\<close> has no IPv6 address.
\<close>

theorem GetLocalAddrForTarget_ipv6_witness:
  "ParseIP sample_lib (targetHost sample_lib ''[2001:db8::1]:443'') =
     Some [0x20, 0x01, 0x0d, 0xb8, 0, 0, 0, 0, 0, 0, 0, 0, 0, 0, 0, 1] \<and>
   To4 [0x20, 0x01, 0x0d, 0xb8, 0, 0, 0, 0, 0, 0, 0, 0, 0, 0, 0, 1] = None \<and>
   ParseIP sample_lib [] = None \<and>
   GetInterfaceByType sample_lib sample_host sample_im ''cable'' = Inr sample_en0 \<and>
   find (globalEntry sample_lib) (IPv6Addrs sample_en0) = Some ''2001:db8::2'' \<and>
   GetLocalAddrForTarget sample_lib sample_host sample_im ''cable'' ''[2001:db8::1]:443'' =
     Inr \<lparr>addr_IP = [0x20, 0x01, 0x0d, 0xb8, 0, 0, 0, 0, 0, 0, 0, 0, 0, 0, 0, 2],
          addr_Port = 0\<rparr> \<and>
   \<not> IsLinkLocalUnicast [0x20, 0x01, 0x0d, 0xb8, 0, 0, 0, 0, 0, 0, 0, 0, 0, 0, 0, 2] \<and>
   GetInterfaceByType sample_lib sample_host sample_im ''wifi'' = Inr sample_en1 \<and>
   IPv6Addrs sample_en1 \<noteq> [] \<and> list_all (linkLocalEntry sample_lib) (IPv6Addrs sample_en1) \<and>
   GetLocalAddrForTarget sample_lib sample_host sample_im ''wifi'' ''[2001:db8::1]:443'' =
     Inl (ErrOnlyLinkLocalIPv6 ''en1'' ''2001:db8::1'') \<and>
   GetInterfaceByType sample_lib sample_host (NewInterfaceManager ''en2'' ''en1'') ''cable'' =
     Inr sample_en2 \<and>
   IPv6Addrs sample_en2 = [] \<and>
   GetLocalAddrForTarget sample_lib sample_host (NewInterfaceManager ''en2'' ''en1'') ''cable''
       ''[2001:db8::1]:443'' =
     Inl (ErrNoIPv6 ''en2'' ''2001:db8::1'')"
proof -
  let ?t = "[0x20, 0x01, 0x0d, 0xb8, 0, 0, 0, 0, 0, 0, 0, 0, 0, 0, 0, 1] :: IP"
  let ?g = "[0x20, 0x01, 0x0d, 0xb8, 0, 0, 0, 0, 0, 0, 0, 0, 0, 0, 0, 2] :: IP"
  have t: "ParseIP sample_lib (targetHost sample_lib ''[2001:db8::1]:443'') = Some ?t"
    by code_simp
  have s: "length ?t = IPv6len" by (simp add: IPv6len_def)
  have m: "To4 ?t = None" by code_simp
  have e: "ParseIP sample_lib [] = None" by code_simp
  have h: "targetHost sample_lib ''[2001:db8::1]:443'' = ''2001:db8::1''" by code_simp
  have i0: "GetInterfaceByType sample_lib sample_host sample_im ''cable'' = Inr sample_en0"
    by code_simp
  have i1: "GetInterfaceByType sample_lib sample_host sample_im ''wifi'' = Inr sample_en1"
    by code_simp
  have i2: "GetInterfaceByType sample_lib sample_host (NewInterfaceManager ''en2'' ''en1'')
              ''cable'' = Inr sample_en2"
    by code_simp
  have f0: "find (globalEntry sample_lib) (IPv6Addrs sample_en0) = Some ''2001:db8::2''"
    by code_simp
  have p0: "ParseIP sample_lib ''2001:db8::2'' = Some ?g" by code_simp
  have l1: "IPv6Addrs sample_en1 \<noteq> []" by code_simp
  have a1: "list_all (linkLocalEntry sample_lib) (IPv6Addrs sample_en1)" by code_simp
  have n2: "IPv6Addrs sample_en2 = []" by code_simp
  note th0 = GetLocalAddrForTarget_ipv6 [OF i0 t s m e]
  note th1 = GetLocalAddrForTarget_ipv6 [OF i1 t s m e]
  note th2 = GetLocalAddrForTarget_ipv6 [OF i2 t s m e]
  have r0: "GetLocalAddrForTarget sample_lib sample_host sample_im ''cable''
              ''[2001:db8::1]:443'' = Inr \<lparr>addr_IP = ?g, addr_Port = 0\<rparr>"
    using th0 f0 p0 by blast
  then have g0: "\<not> IsLinkLocalUnicast ?g"
    using th0 by fastforce
  have r1: "GetLocalAddrForTarget sample_lib sample_host sample_im ''wifi''
              ''[2001:db8::1]:443'' = Inl (ErrOnlyLinkLocalIPv6 ''en1'' ''2001:db8::1'')"
    using th1 l1 a1 by (simp add: h sample_en1_def)
  have r2: "GetLocalAddrForTarget sample_lib sample_host (NewInterfaceManager ''en2'' ''en1'')
              ''cable'' ''[2001:db8::1]:443'' = Inl (ErrNoIPv6 ''en2'' ''2001:db8::1'')"
    using th2 n2 by (simp add: h sample_en2_def)
  from t m e i0 f0 r0 g0 i1 l1 a1 r1 i2 n2 r2 show ?thesis by blast
qed

text \<open>
  The claim for every IPv6 literal fails at an IPv4-mapped one. The target host
  \<^verbatim>\<open>::ffff:10.9.9.9\<close> is written as an IPv6 literal and parses; its address has an
  IPv4 form, so the code takes the target for an IPv4 one and returns the first IPv4
  address of \<^verbatim>\<open>en0\<close>, 192.168.1.7, although \<^verbatim>\<open>en0\<close> has the global IPv6 address
  \<^verbatim>\<open>2001:db8::2\<close>.
\<close>

theorem GetLocalAddrForTarget_ipv6_counterexample:
  "targetHost sample_lib ''[::ffff:10.9.9.9]:443'' = ''::ffff:10.9.9.9'' \<and>
   CHR '':'' \<in> set ''::ffff:10.9.9.9'' \<and>
   ParseIP sample_lib ''::ffff:10.9.9.9'' = Some (IPv4 10 9 9 9) \<and>
   GetInterfaceByType sample_lib sample_host sample_im ''cable'' = Inr sample_en0 \<and>
   find (globalEntry sample_lib) (IPv6Addrs sample_en0) = Some ''2001:db8::2'' \<and>
   ParseIP sample_lib ''2001:db8::2'' =
     Some [0x20, 0x01, 0x0d, 0xb8, 0, 0, 0, 0, 0, 0, 0, 0, 0, 0, 0, 2] \<and>
   GetLocalAddrForTarget sample_lib sample_host sample_im ''cable'' ''[::ffff:10.9.9.9]:443'' =
     Inr \<lparr>addr_IP = IPv4 192 168 1 7, addr_Port = 0\<rparr> \<and>
   GetLocalAddrForTarget sample_lib sample_host sample_im ''cable'' ''[::ffff:10.9.9.9]:443'' \<noteq>
     Inr \<lparr>addr_IP = [0x20, 0x01, 0x0d, 0xb8, 0, 0, 0, 0, 0, 0, 0, 0, 0, 0, 0, 2],
          addr_Port = 0\<rparr>"
  by code_simp

lemma findByName_not_dial: "findByName ifaces n \<noteq> Inl (ErrDial a b c)"
  by (induction ifaces) auto

lemma GetInterfaceByType_not_dial:
  "GetInterfaceByType lib os im t \<noteq> Inl (ErrDial a b c)"
  by (auto simp: GetInterfaceByType_def ListInterfaces_def findByName_not_dial
        split: sum.splits option.splits)

lemma GetLocalAddrForTarget_not_dial:
  "GetLocalAddrForTarget lib os im t target \<noteq> Inl (ErrDial a b c)"
proof (cases "GetInterfaceByType lib os im t")
  case (Inl err)
  then show ?thesis
    using GetInterfaceByType_not_dial [of lib os im t a b c]
    by (simp add: GetLocalAddrForTarget_def)
next
  case (Inr iface)
  then show ?thesis
    by (cases "selectIPv6 lib (IPv6Addrs iface) False")
       (simp add: GetLocalAddrForTarget_def firstIPv4_def Let_def
             split: option.splits list.splits)
qed

text \<open>
  C6. When the lookup of the local address fails, with any error, \<open>DialContext\<close> logs
  the warning and dials with no local address: its outcome is the outcome of the
  unbound dial, and the error of the lookup is not returned.
\<close>

theorem DialContext_fallback:
  assumes "GetLocalAddrForTarget lib os (interfaceManager d) interfaceType address = Inl e"
  shows "DialContext lib os d network address interfaceType =
           ([Log LWarn ''Interface unavailable, falling back to default route'',
             Log LDebug ''Dialing connection''],
            (case osDial os None (timeout d) network address of
               Inl cause \<Rightarrow> Inl (ErrDial address interfaceType cause)
             | Inr conn \<Rightarrow> Inr conn)) \<and>
         snd (DialContext lib os d network address interfaceType) \<noteq> Inl e"
proof -
  have eq: "DialContext lib os d network address interfaceType =
           ([Log LWarn ''Interface unavailable, falling back to default route'',
             Log LDebug ''Dialing connection''],
            (case osDial os None (timeout d) network address of
               Inl cause \<Rightarrow> Inl (ErrDial address interfaceType cause)
             | Inr conn \<Rightarrow> Inr conn))"
    using assms by (simp add: DialContext_def split: sum.splits)
  have "e \<noteq> ErrDial a b c" for a b c
    using assms GetLocalAddrForTarget_not_dial [of lib os "interfaceManager d" interfaceType address a b c]
    by auto
  then have "snd (DialContext lib os d network address interfaceType) \<noteq> Inl e"
    unfolding eq by (auto split: sum.splits)
  with eq show ?thesis by simp
qed

text \<open>
  On the host of the examples: a dial through \<^verbatim>\<open>wifi\<close>, whose interface has no usable
  IPv6 address, goes out unbound and succeeds; a dial through an unknown label to a
  target that refuses the connection fails with the error of the dial.
\<close>

theorem DialContext_fallback_witness:
  "GetLocalAddrForTarget sample_lib sample_host (interfaceManager sample_dialer) ''wifi''
       ''[2001:db8::1]:443'' =
     Inl (ErrOnlyLinkLocalIPv6 ''en1'' ''2001:db8::1'') \<and>
   DialContext sample_lib sample_host sample_dialer ''tcp'' ''[2001:db8::1]:443'' ''wifi'' =
     ([Log LWarn ''Interface unavailable, falling back to default route'',
       Log LDebug ''Dialing connection''],
      Inr (sample_conn None)) \<and>
   GetLocalAddrForTarget sample_lib sample_host (interfaceManager sample_dialer) ''lte''
       ''down.example.com:443'' =
     Inl (ErrUnknownInterfaceType ''lte'') \<and>
   DialContext sample_lib sample_host sample_dialer ''tcp'' ''down.example.com:443'' ''lte'' =
     ([Log LWarn ''Interface unavailable, falling back to default route'',
       Log LDebug ''Dialing connection''],
      Inl (ErrDial ''down.example.com:443'' ''lte'' ''connection refused''))"
proof -
  have g1: "GetLocalAddrForTarget sample_lib sample_host (interfaceManager sample_dialer)
              ''wifi'' ''[2001:db8::1]:443'' =
            Inl (ErrOnlyLinkLocalIPv6 ''en1'' ''2001:db8::1'')"
    by code_simp
  have g2: "GetLocalAddrForTarget sample_lib sample_host (interfaceManager sample_dialer)
              ''lte'' ''down.example.com:443'' = Inl (ErrUnknownInterfaceType ''lte'')"
    by code_simp
  have d1: "osDial sample_host None (timeout sample_dialer) ''tcp'' ''[2001:db8::1]:443'' =
              Inr (sample_conn None)"
    by (simp add: sample_host_def HasPrefix_def)
  have d2: "osDial sample_host None (timeout sample_dialer) ''tcp'' ''down.example.com:443'' =
              Inl ''connection refused''"
    by (simp add: sample_host_def HasPrefix_def)
  have r1: "DialContext sample_lib sample_host sample_dialer ''tcp'' ''[2001:db8::1]:443''
              ''wifi'' =
            ([Log LWarn ''Interface unavailable, falling back to default route'',
              Log LDebug ''Dialing connection''], Inr (sample_conn None))"
    using DialContext_fallback [OF g1, of "''tcp''"] by (simp add: d1)
  have r2: "DialContext sample_lib sample_host sample_dialer ''tcp'' ''down.example.com:443''
              ''lte'' =
            ([Log LWarn ''Interface unavailable, falling back to default route'',
              Log LDebug ''Dialing connection''],
             Inl (ErrDial ''down.example.com:443'' ''lte'' ''connection refused''))"
    using DialContext_fallback [OF g2, of "''tcp''"] by (simp add: d2)
  from g1 r1 g2 r2 show ?thesis by blast
qed

section \<open>Properties of the front-ends\<close>

lemma DialTCP_log:
  assumes "DialTCP lib os d address t = (dlog, r)"
  shows "dlog = [Log LDebug ''Dialing connection''] \<or>
         dlog = [Log LWarn ''Interface unavailable, falling back to default route'',
                 Log LDebug ''Dialing connection'']"
  using assms
  by (auto simp: DialTCP_def Dial_def DialContext_def Let_def split: sum.splits)

lemma To4_zero: "To4 (IPv4 0 0 0 0) = Some [0, 0, 0, 0]"
  by (simp add: To4_def IPv4_def v4InV6Prefix_def isZeros_def IPv4len_def IPv6len_def)

lemma sendReply_zero:
  assumes "ParseIP lib ''0.0.0.0'' = Some (IPv4 0 0 0 0)"
  shows "sendReply lib rep ''0.0.0.0'' 0 = [Write Client [0x05, rep, 0x00, 0x01, 0, 0, 0, 0, 0, 0]]"
  using assms
  by (simp add: sendReply_def orNil_def To4_zero socks5Version_def addrTypeIPv4_def)

lemma handleHandshake_ok:
  "handleHandshake conn input = (ev, Inr rest) \<Longrightarrow> ev = [Write Client [0x05, 0x00]]"
  by (auto simp: handleHandshake_def socks5Version_def authNone_def
        split: option.splits if_splits prod.splits)

lemma handleRequest_ok:
  "handleRequest lib input = (ev, Inr x) \<Longrightarrow> ev = []"
  by (auto simp: handleRequest_def split: option.splits if_splits prod.splits)

lemma Itoa_502: "Itoa 502 = ''502''"
  by code_simp

lemma http_Error_BadGateway:
  "http_Error ''Bad Gateway'' StatusBadGateway =
     [Write Client (bytes (''HTTP/1.1 502 Bad Gateway'' @ CRLF @ CRLF)),
      Write Client (bytes (''Bad Gateway'' @ LF))]"
  by (simp add: http_Error_def rw_WriteHeader_def rw_Write_def StatusBadGateway_def
        StatusText_def Itoa_502)

text \<open>
  C7 (amended). When the upstream dial fails (the library parsing \<^verbatim>\<open>0.0.0.0\<close> as the
  zero IPv4 address):
  \<^item> the SOCKS5 front-end, after the handshake and the request, sends the reply
    \<^verbatim>\<open>05 04 00 01 00 00 00 00 00 00\<close> (host unreachable, bind address 0.0.0.0, port 0)
    and closes the client connection;
  \<^item> the HTTP front-end, on a CONNECT request and on any other request, writes
    \<^verbatim>\<open>HTTP/1.1 502 Bad Gateway\<close> and an empty line, then the line \<^verbatim>\<open>Bad Gateway\<close>
    ended by a newline, and closes the client connection.
\<close>

theorem dial_failure_replies:
  assumes zero: "ParseIP lib ''0.0.0.0'' = Some (IPv4 0 0 0 0)"
  shows
   "(\<forall>ev1 in1 ev2 targetAddr port in2 dlog err.
       handleHandshake sconn (incoming sconn) = (ev1, Inr in1) \<and>
       handleRequest lib in1 = (ev2, Inr (targetAddr, port, in2)) \<and>
       DialTCP lib os (socks_dialer s) (JoinHostPort targetAddr (Itoa port))
         (res_Interface (Route lib (socks_router s) targetAddr port)) = (dlog, Inl err) \<longrightarrow>
       socks_handleConnection lib os s sconn =
         [SetDeadline Client True, Write Client [0x05, 0x00], SetDeadline Client False,
          Log LInfo ''Routing connection''] @ dlog @
         [Write Client [0x05, 0x04, 0x00, 0x01, 0, 0, 0, 0, 0, 0],
          Log LWarn ''Failed to connect'', Close Client]) \<and>
    (\<forall>req host portStr dlog err.
       ReadRequest lib (incoming hconn) = Some req \<and> Method req = MethodConnect \<and>
       connectTarget lib req = (host, portStr) \<and>
       DialTCP lib os (http_dialer h) (JoinHostPort host portStr)
         (res_Interface (Route lib (http_router h) host (Atoi portStr))) = (dlog, Inl err) \<longrightarrow>
       http_handleConnection lib os h hconn =
         [SetDeadline Client True, Log LInfo ''CONNECT request''] @ dlog @
         [Write Client (bytes (''HTTP/1.1 502 Bad Gateway'' @ CRLF @ CRLF)),
          Write Client (bytes (''Bad Gateway'' @ LF)),
          Log LWarn ''Failed to connect'', Close Client]) \<and>
    (\<forall>req host portStr dlog err.
       ReadRequest lib (incoming hconn) = Some req \<and> Method req \<noteq> MethodConnect \<and>
       httpTarget (Host req) = (host, portStr) \<and>
       DialTCP lib os (http_dialer h) (JoinHostPort host portStr)
         (res_Interface (Route lib (http_router h) host (Atoi portStr))) = (dlog, Inl err) \<longrightarrow>
       http_handleConnection lib os h hconn =
         [SetDeadline Client True, Log LInfo ''HTTP request''] @ dlog @
         [Write Client (bytes (''HTTP/1.1 502 Bad Gateway'' @ CRLF @ CRLF)),
          Write Client (bytes (''Bad Gateway'' @ LF)),
          Log LWarn ''Failed to connect'', Close Client])"
proof (intro conjI allI impI)
  fix ev1 in1 ev2 targetAddr port in2 dlog err
  assume h: "handleHandshake sconn (incoming sconn) = (ev1, Inr in1) \<and>
       handleRequest lib in1 = (ev2, Inr (targetAddr, port, in2)) \<and>
       DialTCP lib os (socks_dialer s) (JoinHostPort targetAddr (Itoa port))
         (res_Interface (Route lib (socks_router s) targetAddr port)) = (dlog, Inl err)"
  then have e1: "ev1 = [Write Client [0x05, 0x00]]" and e2: "ev2 = []"
    by (auto dest: handleHandshake_ok handleRequest_ok)
  from h show "socks_handleConnection lib os s sconn =
         [SetDeadline Client True, Write Client [0x05, 0x00], SetDeadline Client False,
          Log LInfo ''Routing connection''] @ dlog @
         [Write Client [0x05, 0x04, 0x00, 0x01, 0, 0, 0, 0, 0, 0],
          Log LWarn ''Failed to connect'', Close Client]"
    by (simp add: socks_handleConnection_def Let_def e1 e2 sendReply_zero [OF zero]
          repHostUnreachable_def)
next
  fix req host portStr dlog err
  assume "ReadRequest lib (incoming hconn) = Some req \<and> Method req = MethodConnect \<and>
       connectTarget lib req = (host, portStr) \<and>
       DialTCP lib os (http_dialer h) (JoinHostPort host portStr)
         (res_Interface (Route lib (http_router h) host (Atoi portStr))) = (dlog, Inl err)"
  then show "http_handleConnection lib os h hconn =
         [SetDeadline Client True, Log LInfo ''CONNECT request''] @ dlog @
         [Write Client (bytes (''HTTP/1.1 502 Bad Gateway'' @ CRLF @ CRLF)),
          Write Client (bytes (''Bad Gateway'' @ LF)),
          Log LWarn ''Failed to connect'', Close Client]"
    by (simp add: http_handleConnection_def handleConnect_def Let_def http_Error_BadGateway)
next
  fix req host portStr dlog err
  assume "ReadRequest lib (incoming hconn) = Some req \<and> Method req \<noteq> MethodConnect \<and>
       httpTarget (Host req) = (host, portStr) \<and>
       DialTCP lib os (http_dialer h) (JoinHostPort host portStr)
         (res_Interface (Route lib (http_router h) host (Atoi portStr))) = (dlog, Inl err)"
  then show "http_handleConnection lib os h hconn =
         [SetDeadline Client True, Log LInfo ''HTTP request''] @ dlog @
         [Write Client (bytes (''HTTP/1.1 502 Bad Gateway'' @ CRLF @ CRLF)),
          Write Client (bytes (''Bad Gateway'' @ LF)),
          Log LWarn ''Failed to connect'', Close Client]"
    by (simp add: http_handleConnection_def handleHTTP_def Let_def http_Error_BadGateway)
qed

text \<open>
  On the host of the examples, a dial of \<^verbatim>\<open>down.example.com:443\<close> is refused: the
  SOCKS5 client gets the reply of the handshake and the reply 04, the HTTP clients get
  the status line and the line \<^verbatim>\<open>Bad Gateway\<close>.
\<close>

theorem dial_failure_replies_witness:
  "ParseIP sample_lib ''0.0.0.0'' = Some (IPv4 0 0 0 0) \<and>
   socks_handleConnection sample_lib sample_host sample_socks socks_down_client =
     [SetDeadline Client True, Write Client [0x05, 0x00], SetDeadline Client False,
      Log LInfo ''Routing connection'', Log LDebug ''Dialing connection'',
      Write Client [0x05, 0x04, 0x00, 0x01, 0, 0, 0, 0, 0, 0],
      Log LWarn ''Failed to connect'', Close Client] \<and>
   http_handleConnection sample_lib sample_host sample_http http_down_client =
     [SetDeadline Client True, Log LInfo ''CONNECT request'', Log LDebug ''Dialing connection'',
      Write Client (bytes (''HTTP/1.1 502 Bad Gateway'' @ CRLF @ CRLF)),
      Write Client (bytes (''Bad Gateway'' @ LF)),
      Log LWarn ''Failed to connect'', Close Client] \<and>
   http_handleConnection sample_lib sample_host sample_http http_get_down_client =
     [SetDeadline Client True, Log LInfo ''HTTP request'', Log LDebug ''Dialing connection'',
      Write Client (bytes (''HTTP/1.1 502 Bad Gateway'' @ CRLF @ CRLF)),
      Write Client (bytes (''Bad Gateway'' @ LF)),
      Log LWarn ''Failed to connect'', Close Client]"
proof -
  let ?dl = "[Log LDebug ''Dialing connection'']"
  let ?err = "ErrDial ''down.example.com:443'' ''wifi'' ''connection refused''"
  have z: "ParseIP sample_lib ''0.0.0.0'' = Some (IPv4 0 0 0 0)" by code_simp
  have hs: "handleHandshake socks_down_client (incoming socks_down_client) =
              ([Write Client [0x05, 0x00]], Inr (drop 3 (incoming socks_down_client)))"
    by code_simp
  have rq: "handleRequest sample_lib (drop 3 (incoming socks_down_client)) =
              ([], Inr (''down.example.com'', 443, []))"
    by code_simp
  have d1: "DialTCP sample_lib sample_host (socks_dialer sample_socks)
              (JoinHostPort ''down.example.com'' (Itoa 443))
              (res_Interface (Route sample_lib (socks_router sample_socks)
                 ''down.example.com'' 443)) = (?dl, Inl ?err)"
    by code_simp
  have rr: "ReadRequest sample_lib (incoming http_down_client) =
              Some \<lparr>Method = ''CONNECT'', Host = ''down.example.com:443'',
                    URL = ''//down.example.com:443''\<rparr>"
    by code_simp
  have ct: "connectTarget sample_lib
              \<lparr>Method = ''CONNECT'', Host = ''down.example.com:443'',
               URL = ''//down.example.com:443''\<rparr> = (''down.example.com'', ''443'')"
    by code_simp
  have d2: "DialTCP sample_lib sample_host (http_dialer sample_http)
              (JoinHostPort ''down.example.com'' ''443'')
              (res_Interface (Route sample_lib (http_router sample_http)
                 ''down.example.com'' (Atoi ''443''))) = (?dl, Inl ?err)"
    by code_simp
  have rg: "ReadRequest sample_lib (incoming http_get_down_client) =
              Some \<lparr>Method = ''GET'', Host = ''down.example.com:443'',
                    URL = ''http://down.example.com:443/''\<rparr>"
    by code_simp
  have ht: "httpTarget ''down.example.com:443'' = (''down.example.com'', ''443'')"
    by code_simp
  note th = dial_failure_replies [OF z, of socks_down_client sample_host sample_socks]
  have s: "socks_handleConnection sample_lib sample_host sample_socks socks_down_client =
     [SetDeadline Client True, Write Client [0x05, 0x00], SetDeadline Client False,
      Log LInfo ''Routing connection''] @ ?dl @
     [Write Client [0x05, 0x04, 0x00, 0x01, 0, 0, 0, 0, 0, 0],
      Log LWarn ''Failed to connect'', Close Client]"
    using th hs rq d1 by blast
  note tc = dial_failure_replies [OF z, of _ sample_host _ http_down_client sample_http]
  have c: "http_handleConnection sample_lib sample_host sample_http http_down_client =
     [SetDeadline Client True, Log LInfo ''CONNECT request''] @ ?dl @
     [Write Client (bytes (''HTTP/1.1 502 Bad Gateway'' @ CRLF @ CRLF)),
      Write Client (bytes (''Bad Gateway'' @ LF)),
      Log LWarn ''Failed to connect'', Close Client]"
  proof -
    have m: "Method \<lparr>Method = ''CONNECT'', Host = ''down.example.com:443'',
                      URL = ''//down.example.com:443''\<rparr> = MethodConnect"
      by (simp add: MethodConnect_def)
    from tc rr m ct d2 show ?thesis by blast
  qed
  note tg = dial_failure_replies [OF z, of _ sample_host _ http_get_down_client sample_http]
  have g: "http_handleConnection sample_lib sample_host sample_http http_get_down_client =
     [SetDeadline Client True, Log LInfo ''HTTP request''] @ ?dl @
     [Write Client (bytes (''HTTP/1.1 502 Bad Gateway'' @ CRLF @ CRLF)),
      Write Client (bytes (''Bad Gateway'' @ LF)),
      Log LWarn ''Failed to connect'', Close Client]"
  proof -
    have m: "Method \<lparr>Method = ''GET'', Host = ''down.example.com:443'',
                      URL = ''http://down.example.com:443/''\<rparr> \<noteq> MethodConnect"
      by (simp add: MethodConnect_def)
    have h: "httpTarget (Host \<lparr>Method = ''GET'', Host = ''down.example.com:443'',
                      URL = ''http://down.example.com:443/''\<rparr>) =
               (''down.example.com'', ''443'')"
      using ht by simp
    from tg rg m h d2 show ?thesis by blast
  qed
  from z s c g show ?thesis by simp
qed

text \<open>
  The claim with the status line as the whole response fails: the bytes written to the
  client that sent the CONNECT request are more than the status line and the empty
  line.
\<close>

theorem dial_failure_replies_counterexample:
  "concat (clientWrites
     (http_handleConnection sample_lib sample_host sample_http http_down_client)) \<noteq>
   bytes (''HTTP/1.1 502 Bad Gateway'' @ CRLF @ CRLF)"
  by code_simp

text \<open>
  C8. For a CONNECT request whose upstream dial succeeds, the handler writes the literal
  \<^verbatim>\<open>HTTP/1.1 200 Connection Established\<close> followed by an empty line, clears the
  deadline and then relays: the bytes written to the client before the relay are
  exactly that literal, which has 39 bytes, and no deadline is set when the relay
  starts.
\<close>

theorem connect_success_reply:
  assumes req: "ReadRequest lib (incoming conn) = Some req"
      and meth: "Method req = MethodConnect"
      and tgt: "connectTarget lib req = (host, portStr)"
      and dial: "DialTCP lib os (http_dialer h) (JoinHostPort host portStr)
                   (res_Interface (Route lib (http_router h) host (Atoi portStr))) =
                 (dlog, Inr remote)"
  shows "http_handleConnection lib os h conn =
           [SetDeadline Client True, Log LInfo ''CONNECT request''] @ dlog @
           [Write Client (bytes (''HTTP/1.1 200 Connection Established'' @ CRLF @ CRLF)),
            SetDeadline Client False, http_relay conn remote, Close Remote, Close Client] \<and>
         concat (clientWrites (beforeRelay (http_handleConnection lib os h conn))) =
           bytes (''HTTP/1.1 200 Connection Established'' @ CRLF @ CRLF) \<and>
         length (bytes (''HTTP/1.1 200 Connection Established'' @ CRLF @ CRLF)) = 39 \<and>
         \<not> deadlineSet False (beforeRelay (http_handleConnection lib os h conn))"
proof -
  have tr: "http_handleConnection lib os h conn =
           [SetDeadline Client True, Log LInfo ''CONNECT request''] @ dlog @
           [Write Client (bytes (''HTTP/1.1 200 Connection Established'' @ CRLF @ CRLF)),
            SetDeadline Client False, http_relay conn remote, Close Remote, Close Client]"
    using req meth tgt dial
    by (simp add: http_handleConnection_def handleConnect_def Let_def)
  have len: "length (bytes (''HTTP/1.1 200 Connection Established'' @ CRLF @ CRLF)) = 39"
    by (simp add: bytes_def CRLF_def)
  from DialTCP_log [OF dial]
  have "concat (clientWrites (beforeRelay (http_handleConnection lib os h conn))) =
           bytes (''HTTP/1.1 200 Connection Established'' @ CRLF @ CRLF) \<and>
        \<not> deadlineSet False (beforeRelay (http_handleConnection lib os h conn))"
    unfolding tr by (auto simp: beforeRelay_def http_relay_def)
  with tr len show ?thesis by blast
qed

text \<open>
  On the host of the examples, a CONNECT to \<^verbatim>\<open>example.com:443\<close> is routed to wifi
  and dialled from 10.1.2.3.
\<close>

theorem connect_success_reply_witness:
  "ReadRequest sample_lib (incoming http_up_client) =
     Some \<lparr>Method = ''CONNECT'', Host = ''example.com:443'', URL = ''//example.com:443''\<rparr> \<and>
   http_handleConnection sample_lib sample_host sample_http http_up_client =
     [SetDeadline Client True, Log LInfo ''CONNECT request'', Log LDebug ''Dialing connection'',
      Write Client (bytes (''HTTP/1.1 200 Connection Established'' @ CRLF @ CRLF)),
      SetDeadline Client False,
      http_relay http_up_client
        (sample_conn (Some \<lparr>addr_IP = IPv4 10 1 2 3, addr_Port = 0\<rparr>)),
      Close Remote, Close Client] \<and>
   concat (clientWrites (beforeRelay
     (http_handleConnection sample_lib sample_host sample_http http_up_client))) =
     bytes (''HTTP/1.1 200 Connection Established'' @ CRLF @ CRLF) \<and>
   length (bytes (''HTTP/1.1 200 Connection Established'' @ CRLF @ CRLF)) = 39 \<and>
   \<not> deadlineSet False (beforeRelay
     (http_handleConnection sample_lib sample_host sample_http http_up_client))"
proof -
  let ?req = "\<lparr>Method = ''CONNECT'', Host = ''example.com:443'', URL = ''//example.com:443''\<rparr>"
  let ?remote = "sample_conn (Some \<lparr>addr_IP = IPv4 10 1 2 3, addr_Port = 0\<rparr>)"
  have rr: "ReadRequest sample_lib (incoming http_up_client) = Some ?req" by code_simp
  have m: "Method ?req = MethodConnect" by (simp add: MethodConnect_def)
  have ct: "connectTarget sample_lib ?req = (''example.com'', ''443'')" by code_simp
  have d: "DialTCP sample_lib sample_host (http_dialer sample_http)
              (JoinHostPort ''example.com'' ''443'')
              (res_Interface (Route sample_lib (http_router sample_http)
                 ''example.com'' (Atoi ''443''))) =
           ([Log LDebug ''Dialing connection''], Inr ?remote)"
    by code_simp
  note th = connect_success_reply [OF rr m ct d]
  have tr: "http_handleConnection sample_lib sample_host sample_http http_up_client =
     [SetDeadline Client True, Log LInfo ''CONNECT request'', Log LDebug ''Dialing connection'',
      Write Client (bytes (''HTTP/1.1 200 Connection Established'' @ CRLF @ CRLF)),
      SetDeadline Client False, http_relay http_up_client ?remote,
      Close Remote, Close Client]"
    using th [THEN conjunct1] by simp
  from rr tr th [THEN conjunct2] show ?thesis by blast
qed

lemma Split_length: "length (Split s sep) = Suc (count_list s sep)"
  by (induction s) (auto split: list.splits)

lemma Split_none: "count_list s sep = 0 \<Longrightarrow> Split s sep = [s]"
  by (induction s) (auto split: if_splits)

lemma Split_one:
  "count_list s sep = 1 \<Longrightarrow>
   Split s sep = [takeWhile (\<lambda>c. c \<noteq> sep) s, tl (dropWhile (\<lambda>c. c \<noteq> sep) s)]"
  by (induction s) (auto simp: Split_none split: if_splits)

lemma httpTarget_eq:
  "httpTarget v =
     (if count_list v CHR '':'' = 1
      then (takeWhile (\<lambda>c. c \<noteq> CHR '':'') v, tl (dropWhile (\<lambda>c. c \<noteq> CHR '':'') v))
      else (v, ''80''))"
  by (auto simp: httpTarget_def Let_def Split_length Split_one)

lemma Atoi_80: "Atoi ''80'' = 80"
  by code_simp

text \<open>
  C10. For a request other than CONNECT, \<open>handleHTTP\<close> splits the Host value at colons
  and takes the two fields for the host and the port only when there are exactly two
  fields, that is when the value holds exactly one colon; the port number is then the
  second field read as a decimal number. With no colon or with more than one, the host
  is the whole Host value and the port is 80. That host and that port number are what
  the handler routes on, and host and port string joined are what it dials.
\<close>

theorem handleHTTP_target:
  "handleHTTP lib os h conn req =
     (let one = (count_list (Host req) CHR '':'' = 1);
          host = (if one then takeWhile (\<lambda>c. c \<noteq> CHR '':'') (Host req) else Host req);
          portStr = (if one then tl (dropWhile (\<lambda>c. c \<noteq> CHR '':'') (Host req)) else ''80'');
          port = (if one then Atoi (tl (dropWhile (\<lambda>c. c \<noteq> CHR '':'') (Host req))) else 80)
      in Log LInfo ''HTTP request'' #
         (case DialTCP lib os (http_dialer h) (JoinHostPort host portStr)
                 (res_Interface (Route lib (http_router h) host port)) of
            (dlog, Inl err) \<Rightarrow>
              dlog @
              [Write Client (bytes (''HTTP/1.1 502 Bad Gateway'' @ CRLF @ CRLF)),
               Write Client (bytes (''Bad Gateway'' @ LF)),
               Log LWarn ''Failed to connect'']
          | (dlog, Inr remote) \<Rightarrow>
              dlog @ Write Remote (RequestBytes lib req) #
              (if \<not> writable remote
               then [Log LDebug ''Failed to write request'', Close Remote]
               else [SetDeadline Client False, CopyAll Client Remote, Close Remote]))) \<and>
   (length (Split (Host req) CHR '':'') = 2 \<longleftrightarrow> count_list (Host req) CHR '':'' = 1)"
proof (cases "count_list (Host req) CHR '':'' = 1")
  case True
  then show ?thesis
    by (simp add: handleHTTP_def httpTarget_eq Let_def http_Error_BadGateway Split_length
          split: prod.splits sum.splits)
next
  case False
  then show ?thesis
    by (simp add: handleHTTP_def httpTarget_eq Let_def http_Error_BadGateway Split_length
          Atoi_80 split: prod.splits sum.splits)
qed

text \<open>
  On a proxy whose only rule sends port 8080 to wifi, with the wifi interface absent: a
  request for \<^verbatim>\<open>down.example.com:8080\<close> is routed on port 8080, to wifi, and dialled
  with the warning of an unbound dial; a request for \<^verbatim>\<open>down.example.com\<close> and a request
  whose Host is the bracketed literal \<^verbatim>\<open>[::1]:8080\<close> are routed on port 80, to cable by
  default, and dialled without that warning, the second at the address made of the
  whole Host value and the port 80.
\<close>

theorem handleHTTP_target_witness:
  "Atoi ''8080'' = 8080 \<and>
   Route sample_lib (http_router alt_http) ''down.example.com'' 8080 =
     \<lparr>res_Interface = ''wifi'', RuleID = ''alt'', RuleName = ''Alt''\<rparr> \<and>
   handleHTTP sample_lib sample_host alt_http (client [])
       (get_req ''down.example.com:8080'') =
     [Log LInfo ''HTTP request'',
      Log LWarn ''Interface unavailable, falling back to default route'',
      Log LDebug ''Dialing connection'',
      Write Client (bytes (''HTTP/1.1 502 Bad Gateway'' @ CRLF @ CRLF)),
      Write Client (bytes (''Bad Gateway'' @ LF)),
      Log LWarn ''Failed to connect''] \<and>
   Route sample_lib (http_router alt_http) ''down.example.com'' 80 =
     \<lparr>res_Interface = ''cable'', RuleID = ''default'', RuleName = ''Default''\<rparr> \<and>
   handleHTTP sample_lib sample_host alt_http (client []) (get_req ''down.example.com'') =
     [Log LInfo ''HTTP request'',
      Log LDebug ''Dialing connection'',
      Write Client (bytes (''HTTP/1.1 502 Bad Gateway'' @ CRLF @ CRLF)),
      Write Client (bytes (''Bad Gateway'' @ LF)),
      Log LWarn ''Failed to connect''] \<and>
   JoinHostPort ''[::1]:8080'' ''80'' = ''[[::1]:8080]:80'' \<and>
   Route sample_lib (http_router alt_http) ''[::1]:8080'' 80 =
     \<lparr>res_Interface = ''cable'', RuleID = ''default'', RuleName = ''Default''\<rparr> \<and>
   handleHTTP sample_lib sample_host alt_http (client []) (get_req ''[::1]:8080'') =
     [Log LInfo ''HTTP request'',
      Log LDebug ''Dialing connection'',
      Write Client (bytes (''HTTP/1.1 502 Bad Gateway'' @ CRLF @ CRLF)),
      Write Client (bytes (''Bad Gateway'' @ LF)),
      Log LWarn ''Failed to connect'']"
proof -
  let ?bad = "[Write Client (bytes (''HTTP/1.1 502 Bad Gateway'' @ CRLF @ CRLF)),
               Write Client (bytes (''Bad Gateway'' @ LF)),
               Log LWarn ''Failed to connect'']"
  let ?dbg = "Log LDebug ''Dialing connection''"
  let ?unb = "Log LWarn ''Interface unavailable, falling back to default route''"
  have a: "Atoi ''8080'' = 8080" by code_simp
  have r1: "Route sample_lib (http_router alt_http) ''down.example.com'' 8080 =
     \<lparr>res_Interface = ''wifi'', RuleID = ''alt'', RuleName = ''Alt''\<rparr>"
    by code_simp
  have r2: "Route sample_lib (http_router alt_http) ''down.example.com'' 80 =
     \<lparr>res_Interface = ''cable'', RuleID = ''default'', RuleName = ''Default''\<rparr>"
    by code_simp
  have r3: "Route sample_lib (http_router alt_http) ''[::1]:8080'' 80 =
     \<lparr>res_Interface = ''cable'', RuleID = ''default'', RuleName = ''Default''\<rparr>"
    by code_simp
  have j3: "JoinHostPort ''[::1]:8080'' ''80'' = ''[[::1]:8080]:80''" by code_simp
  have d1: "DialTCP sample_lib sample_host (http_dialer alt_http)
              (JoinHostPort ''down.example.com'' ''8080'') ''wifi'' =
            ([?unb, ?dbg],
             Inl (ErrDial ''down.example.com:8080'' ''wifi'' ''connection refused''))"
    by code_simp
  have d2: "DialTCP sample_lib sample_host (http_dialer alt_http)
              (JoinHostPort ''down.example.com'' ''80'') ''cable'' =
            ([?dbg], Inl (ErrDial ''down.example.com:80'' ''cable'' ''connection refused''))"
    by code_simp
  have d3: "DialTCP sample_lib sample_host (http_dialer alt_http)
              ''[[::1]:8080]:80'' ''cable'' =
            ([?dbg], Inl (ErrDial ''[[::1]:8080]:80'' ''cable'' ''no such host''))"
    by code_simp
  have c1: "count_list (Host (get_req ''down.example.com:8080'')) CHR '':'' = 1"
    by (simp add: get_req_def)
  have c2: "count_list (Host (get_req ''down.example.com'')) CHR '':'' \<noteq> 1"
    by (simp add: get_req_def)
  have c3: "count_list (Host (get_req ''[::1]:8080'')) CHR '':'' \<noteq> 1"
    by (simp add: get_req_def)
  have h1: "handleHTTP sample_lib sample_host alt_http (client [])
              (get_req ''down.example.com:8080'') = Log LInfo ''HTTP request'' # [?unb, ?dbg] @ ?bad"
    using handleHTTP_target [of sample_lib sample_host alt_http "client []"
            "get_req ''down.example.com:8080''", THEN conjunct1]
    unfolding Let_def c1 by (simp add: get_req_def a r1 d1)
  have h2: "handleHTTP sample_lib sample_host alt_http (client [])
              (get_req ''down.example.com'') = Log LInfo ''HTTP request'' # [?dbg] @ ?bad"
    using handleHTTP_target [of sample_lib sample_host alt_http "client []"
            "get_req ''down.example.com''", THEN conjunct1] c2
    unfolding Let_def by (simp add: get_req_def r2 d2)
  have h3: "handleHTTP sample_lib sample_host alt_http (client [])
              (get_req ''[::1]:8080'') = Log LInfo ''HTTP request'' # [?dbg] @ ?bad"
    using handleHTTP_target [of sample_lib sample_host alt_http "client []"
            "get_req ''[::1]:8080''", THEN conjunct1] c3
    unfolding Let_def by (simp add: get_req_def r3 j3 d3)
  from a r1 h1 r2 h2 j3 r3 h3 show ?thesis by simp
qed

text \<open>
  C9 (the code at the failing input). For TCP connections on both sides, the relay of
  the SOCKS5 server closes the write side of the destination after each copy; the relay
  of the HTTP proxy server only copies, so the two relays differ.
\<close>

theorem relay_half_close_differs:
  "socks_relay (client []) (sample_conn None) =
     Relay [Copy Remote Client, CloseWrite Remote] [Copy Client Remote, CloseWrite Client] \<and>
   http_relay (client []) (sample_conn None) =
     Relay [Copy Remote Client] [Copy Client Remote] \<and>
   http_relay (client []) (sample_conn None) \<noteq> socks_relay (client []) (sample_conn None)"
  by (simp add: socks_relay_def http_relay_def copyFunc_def client_def sample_conn_def)


end
